theory Spec2Isabelle
  imports Complex_Main
begin

section \<open>Python values and library primitives\<close>

text \<open>
  The generators build each row as a dict literal and append it to a list. A dict keeps
  its keys in insertion order, so a row is an association list from field name to value.
  Python floats are modelled as real numbers; strings are byte strings in UTF-8, the
  encoding the files are written in.
\<close>

datatype pyval = PyStr string | PyInt int | PyFloat real | PyNone | PyBool bool

type_synonym row = "(string \<times> pyval) list"

datatype py_error = ZeroDivisionError

text \<open>The numeric reading of a stored value (\<open>int\<close> and \<open>float\<close> mix in arithmetic).\<close>

fun num :: "pyval \<Rightarrow> real" where
  "num (PyInt k) = of_int k"
| "num (PyFloat x) = x"
| "num (PyBool b) = (if b then 1 else 0)"
| "num (PyStr s) = 0"
| "num PyNone = 0"

subsection \<open>Accented letters (UTF-8)\<close>

abbreviation a_acute :: string where "a_acute \<equiv> [CHR 0xC3, CHR 0xA1]"
abbreviation a_grave_cap :: string where "a_grave_cap \<equiv> [CHR 0xC3, CHR 0x80]"
abbreviation a_tilde :: string where "a_tilde \<equiv> [CHR 0xC3, CHR 0xA3]"
abbreviation a_circ :: string where "a_circ \<equiv> [CHR 0xC3, CHR 0xA2]"
abbreviation e_acute :: string where "e_acute \<equiv> [CHR 0xC3, CHR 0xA9]"
abbreviation e_circ :: string where "e_circ \<equiv> [CHR 0xC3, CHR 0xAA]"
abbreviation i_acute :: string where "i_acute \<equiv> [CHR 0xC3, CHR 0xAD]"
abbreviation o_acute :: string where "o_acute \<equiv> [CHR 0xC3, CHR 0xB3]"
abbreviation o_circ :: string where "o_circ \<equiv> [CHR 0xC3, CHR 0xB4]"
abbreviation o_tilde :: string where "o_tilde \<equiv> [CHR 0xC3, CHR 0xB5]"
abbreviation u_acute :: string where "u_acute \<equiv> [CHR 0xC3, CHR 0xBA]"
abbreviation c_cedil :: string where "c_cedil \<equiv> [CHR 0xC3, CHR 0xA7]"

subsection \<open>Rounding and truncation\<close>

text \<open>
  \<open>round(x, n)\<close> rounds to \<open>n\<close> decimals, ties to the even neighbour; \<open>int(x)\<close>
  truncates towards zero.
\<close>

definition rint :: "real \<Rightarrow> int" where
  "rint x =
     (let f = \<lfloor>x\<rfloor>; d = x - of_int f
      in if d < 1 / 2 then f else if 1 / 2 < d then f + 1 else if even f then f else f + 1)"

definition py_round :: "real \<Rightarrow> nat \<Rightarrow> real" where
  "py_round x n = of_int (rint (x * 10 ^ n)) / 10 ^ n"

definition py_int :: "real \<Rightarrow> int" where
  "py_int x = (if 0 \<le> x then \<lfloor>x\<rfloor> else \<lceil>x\<rceil>)"

text \<open>\<open>round(v, n)\<close> on a stored value: an \<open>int\<close> stays an \<open>int\<close>.\<close>

fun round_val :: "pyval \<Rightarrow> nat \<Rightarrow> pyval" where
  "round_val (PyFloat x) n = PyFloat (py_round x n)"
| "round_val v n = v"

text \<open>True division \<open>a / b\<close> of Python numbers raises on a zero divisor.\<close>

definition truediv :: "real \<Rightarrow> real \<Rightarrow> py_error + real" where
  "truediv a b = (if b = 0 then Inl ZeroDivisionError else Inr (a / b))"

subsection \<open>String formatting\<close>

definition digit_char :: "nat \<Rightarrow> char" where
  "digit_char d = char_of (48 + d)"

fun str_nat :: "nat \<Rightarrow> string" where
  "str_nat n = (if n < 10 then [digit_char n] else str_nat (n div 10) @ [digit_char (n mod 10)])"

declare str_nat.simps [simp del]

definition str_int :: "int \<Rightarrow> string" where
  "str_int k = (if k < 0 then CHR ''-'' # str_nat (nat (- k)) else str_nat (nat k))"

text \<open>
  The format specification \<open>0wd\<close> of an f-string: the decimal digits, padded with
  zeros after the sign up to a total width of at least \<open>w\<close>.
\<close>

definition format_0d :: "nat \<Rightarrow> int \<Rightarrow> string" where
  "format_0d w k =
     (if k < 0
      then CHR ''-'' # replicate (w - 1 - length (str_nat (nat (- k)))) CHR ''0'' @ str_nat (nat (- k))
      else replicate (w - length (str_nat (nat k))) CHR ''0'' @ str_nat (nat k))"

text \<open>\<open>sep.join(xs)\<close>.\<close>

fun join :: "string \<Rightarrow> string list \<Rightarrow> string" where
  "join sep [] = []"
| "join sep [x] = x"
| "join sep (x # y # ys) = x @ sep @ join sep (y # ys)"

subsection \<open>Dates\<close>

text \<open>
  A \<open>date\<close> is its proleptic Gregorian ordinal (\<open>date.toordinal()\<close>), so adding a
  \<open>timedelta\<close> adds its whole days. \<open>ymd\<close> recovers year, month and day.
\<close>

type_synonym date = int

definition ymd :: "date \<Rightarrow> int \<times> int \<times> int" where
  "ymd d =
     (let z = d + 305;
          era = z div 146097;
          doe = z mod 146097;
          yoe = (doe - doe div 1460 + doe div 36524 - doe div 146096) div 365;
          doy = doe - (365 * yoe + yoe div 4 - yoe div 100);
          mp = (5 * doy + 2) div 153;
          dd = doy - (153 * mp + 2) div 5 + 1;
          mm = (if mp < 10 then mp + 3 else mp - 9);
          yy = yoe + era * 400 + (if mm \<le> 2 then 1 else 0)
      in (yy, mm, dd))"

definition year :: "date \<Rightarrow> int" where
  "year d = fst (ymd d)"

definition month :: "date \<Rightarrow> int" where
  "month d = fst (snd (ymd d))"

definition day :: "date \<Rightarrow> int" where
  "day d = snd (snd (ymd d))"

definition strftime_Ymd :: "date \<Rightarrow> string" where
  "strftime_Ymd d =
     format_0d 4 (year d) @ ''-'' @ format_0d 2 (month d) @ ''-'' @ format_0d 2 (day d)"

text \<open>A \<open>date\<close> has no time of day: \<open>%H:%M\<close> prints as midnight.\<close>

definition strftime_YmdHM :: "date \<Rightarrow> string" where
  "strftime_YmdHM d = strftime_Ymd d @ '' 00:00''"

definition timedelta_days :: "int \<Rightarrow> int" where
  "timedelta_days k = k"

definition timedelta_minutes :: "int \<Rightarrow> int" where
  "timedelta_minutes m = m div 1440"

subsection \<open>Samplers\<close>

text \<open>
  Every random call site of a row has its own draw, supplied from outside:
  \<^item> \<open>np.random.normal(mu, sigma)\<close> is \<open>mu + sigma * z\<close> for a standard normal draw \<open>z\<close>,
    \<open>np.random.lognormal\<close> its exponential;
  \<^item> \<open>np.random.beta\<close>, \<open>random.random()\<close>, \<open>random.randint\<close> and the fake-data
    provider are draws used as they come;
  \<^item> \<open>random.uniform(a, b)\<close> is \<open>a + (b - a) * random.random()\<close>;
  \<^item> \<open>np.random.choice(a, p=w)\<close> and \<open>random.choice(a)\<close> return the element of \<open>a\<close> at
    the drawn index.
  Called without \<open>size\<close>, the numpy samplers return Python floats, so arithmetic on
  their results is Python's own: dividing by a zero float raises.
\<close>

definition np_normal :: "real \<Rightarrow> real \<Rightarrow> real \<Rightarrow> real" where
  "np_normal mu sigma z = mu + sigma * z"

definition np_lognormal :: "real \<Rightarrow> real \<Rightarrow> real \<Rightarrow> real" where
  "np_lognormal mu sigma z = exp (np_normal mu sigma z)"

definition uniform :: "real \<Rightarrow> real \<Rightarrow> real \<Rightarrow> real" where
  "uniform a b u = a + (b - a) * u"

definition np_choice :: "'a list \<Rightarrow> real list \<Rightarrow> nat \<Rightarrow> 'a" where
  "np_choice a p k = a ! k"

definition choice :: "'a list \<Rightarrow> nat \<Rightarrow> 'a" where
  "choice a k = a ! k"

text \<open>\<open>random.sample(a, k)\<close>: the elements at the drawn (distinct) positions.\<close>

definition sample :: "'a list \<Rightarrow> nat list \<Rightarrow> 'a list" where
  "sample a ks = map (\<lambda>k. a ! k) ks"

text \<open>\<open>x if c else None\<close> for an optional string field.\<close>

definition opt_str :: "bool \<Rightarrow> string \<Rightarrow> pyval" where
  "opt_str c s = (if c then PyStr s else PyNone)"

text \<open>\<open>range(n)\<close>, the row indices of a loop; empty when \<open>n\<close> is not positive.\<close>

definition range :: "int \<Rightarrow> nat list" where
  "range n = [0..<nat n]"

section \<open>Cashflow\<close>

record cashflow_draws =
  cf_transaction_date :: date
  cf_type_idx :: nat
  cf_value_z :: real
  cf_descricao :: string
  cf_category_idx :: nat
  cf_subcategoria :: string
  cf_account_idx :: nat
  cf_responsavel :: string
  cf_comprovante :: int
  cf_centro_custo :: string
  cf_projeto_gate :: real
  cf_projeto :: string
  cf_currency_idx :: nat
  cf_taxa_gate :: real
  cf_taxa_u :: real
  cf_previsao_idx :: nat
  cf_observacoes_gate :: real
  cf_observacoes :: string

definition cf_types :: "string list" where
  "cf_types = [''Entrada'', ''Sa'' @ i_acute @ ''da'']"

definition cf_type_weights :: "real list" where
  "cf_type_weights = [0.45, 0.55]"

definition cf_categories :: "string list" where
  "cf_categories = [''Vendas'', ''Sal'' @ a_acute @ ''rios'', ''Fornecedores'', ''Impostos'',
     ''Investimentos'', ''Despesas Operacionais'']"

definition cf_category_weights :: "real list" where
  "cf_category_weights = [0.25, 0.2, 0.15, 0.1, 0.1, 0.2]"

definition cf_accounts :: "string list" where
  "cf_accounts = [''Conta Corrente'', ''Conta Poupan'' @ c_cedil @ ''a'', ''Caixa'', ''Investimentos'']"

definition cf_account_weights :: "real list" where
  "cf_account_weights = [0.6, 0.2, 0.15, 0.05]"

definition cf_currencies :: "string list" where
  "cf_currencies = [''BRL'', ''USD'', ''EUR'']"

definition cf_currency_weights :: "real list" where
  "cf_currency_weights = [0.95, 0.04, 0.01]"

text \<open>
  One iteration of the loop: from the running balance and the row's draws to the row
  and the new balance.
\<close>

definition cashflow_step :: "real \<Rightarrow> cashflow_draws \<Rightarrow> row \<times> real" where
  "cashflow_step current_balance d =
     (let transaction_type = np_choice cf_types cf_type_weights (cf_type_idx d);
          value = (if transaction_type = ''Entrada''
                   then py_round (np_lognormal 8 1.2 (cf_value_z d)) 2
                   else py_round (np_lognormal 7 1.5 (cf_value_z d)) 2);
          new_balance = (if transaction_type = ''Entrada''
                         then current_balance + value
                         else current_balance - value);
          row = [
            (''Data'', PyStr (strftime_Ymd (cf_transaction_date d))),
            (''Tipo'', PyStr transaction_type),
            (''Descricao'', PyStr (butlast (cf_descricao d))),
            (''Valor'', PyFloat value),
            (''Categoria'', PyStr (np_choice cf_categories cf_category_weights (cf_category_idx d))),
            (''Subcategoria'', PyStr (cf_subcategoria d)),
            (''Conta'', PyStr (np_choice cf_accounts cf_account_weights (cf_account_idx d))),
            (''Saldo_Anterior'', PyFloat (py_round current_balance 2)),
            (''Saldo_Apos'', PyFloat (py_round new_balance 2)),
            (''Responsavel'', PyStr (cf_responsavel d)),
            (''Comprovante'', PyStr (''COMP'' @ str_int (cf_comprovante d))),
            (''Centro_Custo'', PyStr (cf_centro_custo d)),
            (''Projeto'', opt_str (0.7 < cf_projeto_gate d) (butlast (cf_projeto d))),
            (''Moeda'', PyStr (np_choice cf_currencies cf_currency_weights (cf_currency_idx d))),
            (''Taxa_Cambio'', PyFloat (if 0.9 < cf_taxa_gate d
                                     then py_round (uniform 1 6 (cf_taxa_u d)) 4 else 1.0)),
            (''Previsao_Realizado'',
               PyStr (choice [''Realizado'', ''Previs'' @ a_tilde @ ''o''] (cf_previsao_idx d))),
            (''Observacoes'', opt_str (0.8 < cf_observacoes_gate d) (cf_observacoes d))]
      in (row, new_balance))"

text \<open>
  The loop \<open>for i in range(num_rows)\<close>, with the list \<open>data\<close> and the balance threaded
  through the iterations.
\<close>

fun cashflow_loop :: "nat list \<Rightarrow> (nat \<Rightarrow> cashflow_draws) \<Rightarrow> real \<Rightarrow> row list \<Rightarrow> row list" where
  "cashflow_loop [] draws current_balance data = data"
| "cashflow_loop (i # is) draws current_balance data =
     (case cashflow_step current_balance (draws i) of
        (row, new_balance) \<Rightarrow> cashflow_loop is draws new_balance (data @ [row]))"

definition cashflow_data :: "int \<Rightarrow> (nat \<Rightarrow> cashflow_draws) \<Rightarrow> row list" where
  "cashflow_data num_rows draws = cashflow_loop (range num_rows) draws 100000.0 []"

text \<open>The value of \<open>current_balance\<close> when iteration \<open>i\<close> of the loop begins.\<close>

fun cashflow_balance :: "(nat \<Rightarrow> cashflow_draws) \<Rightarrow> nat \<Rightarrow> real" where
  "cashflow_balance draws 0 = 100000.0"
| "cashflow_balance draws (Suc i) = snd (cashflow_step (cashflow_balance draws i) (draws i))"

text \<open>
  What a generator does after the loop: it writes the rows to a file through a data
  frame and prints one line.
\<close>

record run_result =
  csv_path :: string
  csv_rows :: "row list"
  printed :: string

definition generate_cashflow_data :: "int \<Rightarrow> (nat \<Rightarrow> cashflow_draws) \<Rightarrow> run_result" where
  "generate_cashflow_data num_rows draws =
     \<lparr>csv_path = ''../../samples/financas_fluxo_caixa.csv'',
      csv_rows = cashflow_data num_rows draws,
      printed = ''Arquivo 'financas_fluxo_caixa.csv' gerado com '' @ str_int num_rows @ '' linhas.''\<rparr>"

section \<open>E-commerce sales\<close>

record ecommerce_draws =
  ec_order_date :: date
  ec_delivery_gate :: real
  ec_delivery_days :: int
  ec_quantity_z :: real
  ec_unit_price_z :: real
  ec_freight_z :: real
  ec_discount_gate :: real
  ec_discount_u :: real
  ec_cliente :: int
  ec_produto :: string
  ec_status_idx :: nat
  ec_payment_idx :: nat
  ec_channel_idx :: nat
  ec_cidade :: string
  ec_estado :: string
  ec_avaliacao_gate :: real
  ec_avaliacao :: int
  ec_motivo_gate :: real
  ec_motivo :: string
  ec_devolvido_gate :: real
  ec_devolvido_u :: real
  ec_category_idx :: nat
  ec_sku :: int

definition ec_statuses :: "string list" where
  "ec_statuses = [''Conclu'' @ i_acute @ ''do'', ''Pendente'', ''Cancelado'', ''Devolvido'']"

definition ec_status_weights :: "real list" where
  "ec_status_weights = [0.75, 0.15, 0.08, 0.02]"

definition ec_payment_methods :: "string list" where
  "ec_payment_methods = [''Cart'' @ a_tilde @ ''o de Cr'' @ e_acute @ ''dito'', ''Boleto'', ''PIX'',
     ''Transfer'' @ e_circ @ ''ncia'']"

definition ec_payment_weights :: "real list" where
  "ec_payment_weights = [0.5, 0.25, 0.2, 0.05]"

definition ec_channels :: "string list" where
  "ec_channels = [''Site'', ''App Mobile'', ''Marketplace'', ''Loja F'' @ i_acute @ ''sica'']"

definition ec_channel_weights :: "real list" where
  "ec_channel_weights = [0.4, 0.3, 0.2, 0.1]"

definition ec_categories :: "string list" where
  "ec_categories = [''Eletr'' @ o_circ @ ''nicos'', ''Roupas'', ''Casa e Jardim'', ''Livros'', ''Esportes'']"

definition ec_category_weights :: "real list" where
  "ec_category_weights = [0.3, 0.25, 0.2, 0.15, 0.1]"

definition ecommerce_row :: "nat \<Rightarrow> ecommerce_draws \<Rightarrow> row" where
  "ecommerce_row i d =
     (let order_date = ec_order_date d;
          delivery_date = (if 0.1 < ec_delivery_gate d
                           then Some (order_date + timedelta_days (ec_delivery_days d)) else None);
          quantity = max 1 (py_int (np_normal 2 1.5 (ec_quantity_z d)));
          unit_price = py_round (np_normal 150 80 (ec_unit_price_z d)) 2;
          freight = py_round (np_normal 15 8 (ec_freight_z d)) 2;
          discount = (if 0.7 < ec_discount_gate d
                      then PyFloat (py_round (uniform 0 (unit_price * 0.3) (ec_discount_u d)) 2)
                      else PyInt 0);
          total = (of_int quantity * unit_price) + freight - num discount
      in [
        (''ID_Pedido'', PyStr (''PED'' @ format_0d 6 (int i + 1))),
        (''Data_Pedido'', PyStr (strftime_Ymd order_date)),
        (''Cliente_ID'', PyStr (''CLI'' @ format_0d 5 (ec_cliente d))),
        (''Produto'', PyStr (butlast (ec_produto d))),
        (''Quantidade'', PyInt quantity),
        (''Preco_Unitario'', PyFloat unit_price),
        (''Total'', PyFloat (py_round total 2)),
        (''Status'', PyStr (np_choice ec_statuses ec_status_weights (ec_status_idx d))),
        (''Metodo_Pagamento'', PyStr (np_choice ec_payment_methods ec_payment_weights (ec_payment_idx d))),
        (''Frete'', PyFloat freight),
        (''Desconto'', discount),
        (''Canal_Venda'', PyStr (np_choice ec_channels ec_channel_weights (ec_channel_idx d))),
        (''Cidade'', PyStr (ec_cidade d)),
        (''Estado'', PyStr (ec_estado d)),
        (''Avaliacao'', (if 0.3 < ec_avaliacao_gate d then PyInt (ec_avaliacao d) else PyNone)),
        (''Data_Entrega'', (case delivery_date of Some dd \<Rightarrow> PyStr (strftime_Ymd dd) | None \<Rightarrow> PyNone)),
        (''Motivo_Cancelamento'', opt_str (0.9 < ec_motivo_gate d) (ec_motivo d)),
        (''Valor_Devolvido'', (if 0.95 < ec_devolvido_gate d
                               then PyFloat (py_round (uniform 0 total (ec_devolvido_u d)) 2)
                               else PyInt 0)),
        (''Categoria_Produto'', PyStr (np_choice ec_categories ec_category_weights (ec_category_idx d))),
        (''SKU'', PyStr (''SKU'' @ str_int (ec_sku d)))])"

definition ecommerce_data :: "int \<Rightarrow> (nat \<Rightarrow> ecommerce_draws) \<Rightarrow> row list" where
  "ecommerce_data num_rows draws = map (\<lambda>i. ecommerce_row i (draws i)) (range num_rows)"

definition generate_ecommerce_sales :: "int \<Rightarrow> (nat \<Rightarrow> ecommerce_draws) \<Rightarrow> run_result" where
  "generate_ecommerce_sales num_rows draws =
     \<lparr>csv_path = ''../../samples/vendas_ecommerce.csv'',
      csv_rows = ecommerce_data num_rows draws,
      printed = ''Arquivo 'vendas_ecommerce.csv' gerado com '' @ str_int num_rows @ '' linhas.''\<rparr>"

section \<open>Controllership\<close>

record controllership_draws =
  ct_data_lancamento :: date
  ct_valor_z :: real
  ct_conta_debito :: int
  ct_conta_credito :: int
  ct_historico :: string
  ct_tipo_idx :: nat
  ct_centro_idx :: nat
  ct_filial :: int
  ct_documento :: int
  ct_fornecedor_gate :: real
  ct_company :: string
  ct_name :: string
  ct_moeda_idx :: nat
  ct_taxa_gate :: real
  ct_taxa_u :: real
  ct_usuario :: string
  ct_aprovado_idx :: nat
  ct_observacoes_gate :: real
  ct_observacoes :: string
  ct_categoria :: string
  ct_subcategoria :: string

definition ct_tipos :: "string list" where
  "ct_tipos = [''Receita'', ''Despesa'', ''Transfer'' @ e_circ @ ''ncia'', ''Ajuste'']"

definition ct_tipo_weights :: "real list" where
  "ct_tipo_weights = [0.4, 0.45, 0.1, 0.05]"

definition ct_centros_custo :: "string list" where
  "ct_centros_custo = [''Vendas'', ''Administrativo'', ''Produ'' @ c_cedil @ a_tilde @ ''o'',
     ''Log'' @ i_acute @ ''stica'', ''Marketing'']"

definition ct_centro_weights :: "real list" where
  "ct_centro_weights = [0.3, 0.2, 0.25, 0.15, 0.1]"

definition ct_moedas :: "string list" where
  "ct_moedas = [''BRL'', ''USD'', ''EUR'']"

definition ct_moeda_weights :: "real list" where
  "ct_moeda_weights = [0.9, 0.08, 0.02]"

definition controllership_row :: "nat \<Rightarrow> controllership_draws \<Rightarrow> row" where
  "controllership_row i d =
     (let data_lancamento = ct_data_lancamento d;
          valor_base = np_lognormal 8 1.5 (ct_valor_z d)
      in [
        (''Data_Lancamento'', PyStr (strftime_Ymd data_lancamento)),
        (''Conta_Debito'', PyStr (''1.'' @ str_int (ct_conta_debito d))),
        (''Conta_Credito'', PyStr (''2.'' @ str_int (ct_conta_credito d))),
        (''Valor'', PyFloat (py_round valor_base 2)),
        (''Historico'', PyStr (butlast (ct_historico d))),
        (''Tipo_Lancamento'', PyStr (np_choice ct_tipos ct_tipo_weights (ct_tipo_idx d))),
        (''Centro_Custo'', PyStr (np_choice ct_centros_custo ct_centro_weights (ct_centro_idx d))),
        (''Filial'', PyStr (''FIL'' @ format_0d 2 (ct_filial d))),
        (''Documento'', PyStr (''DOC'' @ str_int (ct_documento d))),
        (''Fornecedor_Cliente'', PyStr (if 0.5 < ct_fornecedor_gate d then ct_company d else ct_name d)),
        (''Moeda'', PyStr (np_choice ct_moedas ct_moeda_weights (ct_moeda_idx d))),
        (''Taxa_Cambio'', PyFloat (if 0.9 < ct_taxa_gate d
                                   then py_round (uniform 1 6 (ct_taxa_u d)) 4 else 1.0)),
        (''Competencia'', PyStr (str_int (year data_lancamento) @ ''-'' @ format_0d 2 (month data_lancamento))),
        (''Usuario'', PyStr (ct_usuario d)),
        (''Aprovado'', PyBool (choice [True, False] (ct_aprovado_idx d))),
        (''Observacoes'', opt_str (0.7 < ct_observacoes_gate d) (ct_observacoes d)),
        (''Categoria'', PyStr (ct_categoria d)),
        (''Subcategoria'', PyStr (ct_subcategoria d))])"

definition controllership_data :: "int \<Rightarrow> (nat \<Rightarrow> controllership_draws) \<Rightarrow> row list" where
  "controllership_data num_rows draws = map (\<lambda>i. controllership_row i (draws i)) (range num_rows)"

definition generate_controllership_data :: "int \<Rightarrow> (nat \<Rightarrow> controllership_draws) \<Rightarrow> run_result" where
  "generate_controllership_data num_rows draws =
     \<lparr>csv_path = ''../../samples/controladoria_contabilidade.csv'',
      csv_rows = controllership_data num_rows draws,
      printed = ''Arquivo 'controladoria_contabilidade.csv' gerado com '' @ str_int num_rows @ '' linhas.''\<rparr>"

section \<open>Human resources\<close>

record hr_draws =
  hr_admission_date :: date
  hr_age :: int
  hr_salary_z :: real
  hr_nome :: string
  hr_cpf :: string
  hr_cargo :: string
  hr_dept_idx :: nat
  hr_status_idx :: nat
  hr_demissao_gate :: real
  hr_demissao_days :: int
  hr_gender_idx :: nat
  hr_education_idx :: nat
  hr_estado_civil_idx :: nat
  hr_dependentes :: int
  hr_horas_gate :: real
  hr_horas :: int
  hr_faltas :: int
  hr_avaliacao_u :: real
  hr_beneficios_idx :: "nat list"
  hr_cidade :: string
  hr_estado :: string

definition hr_statuses :: "string list" where
  "hr_statuses = [''Ativo'', ''Demitido'', ''Afastado'', ''F'' @ e_acute @ ''rias'']"

definition hr_status_weights :: "real list" where
  "hr_status_weights = [0.8, 0.15, 0.03, 0.02]"

definition hr_departments :: "string list" where
  "hr_departments = [''Vendas'', ''TI'', ''RH'', ''Financeiro'', ''Opera'' @ c_cedil @ o_tilde @ ''es'']"

definition hr_dept_weights :: "real list" where
  "hr_dept_weights = [0.25, 0.2, 0.1, 0.15, 0.3]"

definition hr_genders :: "string list" where
  "hr_genders = [''Masculino'', ''Feminino'', ''Outro'']"

definition hr_gender_weights :: "real list" where
  "hr_gender_weights = [0.48, 0.5, 0.02]"

definition hr_education_levels :: "string list" where
  "hr_education_levels = [''Ensino Fundamental'', ''Ensino M'' @ e_acute @ ''dio'', ''Superior'',
     ''P'' @ o_acute @ ''s-gradua'' @ c_cedil @ a_tilde @ ''o'']"

definition hr_education_weights :: "real list" where
  "hr_education_weights = [0.1, 0.4, 0.4, 0.1]"

definition hr_row :: "nat \<Rightarrow> hr_draws \<Rightarrow> row" where
  "hr_row i d =
     (let admission_date = hr_admission_date d;
          age = hr_age d;
          salary = py_round (np_lognormal 9 0.8 (hr_salary_z d)) 2
      in [
        (''ID_Funcionario'', PyStr (''FUN'' @ format_0d 5 (int i + 1))),
        (''Nome'', PyStr (hr_nome d)),
        (''CPF'', PyStr (hr_cpf d)),
        (''Data_Admissao'', PyStr (strftime_Ymd admission_date)),
        (''Cargo'', PyStr (hr_cargo d)),
        (''Salario'', PyFloat salary),
        (''Departamento'', PyStr (np_choice hr_departments hr_dept_weights (hr_dept_idx d))),
        (''Status'', PyStr (np_choice hr_statuses hr_status_weights (hr_status_idx d))),
        (''Data_Demissao'', opt_str (0.8 < hr_demissao_gate d)
           (strftime_Ymd (admission_date + timedelta_days (hr_demissao_days d)))),
        (''Idade'', PyInt age),
        (''Genero'', PyStr (np_choice hr_genders hr_gender_weights (hr_gender_idx d))),
        (''Escolaridade'', PyStr (np_choice hr_education_levels hr_education_weights (hr_education_idx d))),
        (''Estado_Civil'', PyStr (choice [''Solteiro'', ''Casado'', ''Divorciado'', ''Vi'' @ u_acute @ ''vo'']
           (hr_estado_civil_idx d))),
        (''Dependentes'', PyInt (hr_dependentes d)),
        (''Horas_Extras'', PyInt (if 0.6 < hr_horas_gate d then hr_horas d else 0)),
        (''Faltas'', PyInt (hr_faltas d)),
        (''Avaliacao'', PyFloat (py_round (uniform 1 5 (hr_avaliacao_u d)) 1)),
        (''Beneficios'', PyStr (join '', '' (sample
           [''Vale Alimenta'' @ c_cedil @ a_tilde @ ''o'', ''Plano de Sa'' @ u_acute @ ''de'',
            ''Vale Transporte'', ''Seguro de Vida''] (hr_beneficios_idx d)))),
        (''Cidade'', PyStr (hr_cidade d)),
        (''Estado'', PyStr (hr_estado d))])"

definition hr_data :: "int \<Rightarrow> (nat \<Rightarrow> hr_draws) \<Rightarrow> row list" where
  "hr_data num_rows draws = map (\<lambda>i. hr_row i (draws i)) (range num_rows)"

definition generate_hr_data :: "int \<Rightarrow> (nat \<Rightarrow> hr_draws) \<Rightarrow> run_result" where
  "generate_hr_data num_rows draws =
     \<lparr>csv_path = ''../../samples/recursos_humanos.csv'',
      csv_rows = hr_data num_rows draws,
      printed = ''Arquivo 'recursos_humanos.csv' gerado com '' @ str_int num_rows @ '' linhas.''\<rparr>"

section \<open>Logistics\<close>

record logistics_draws =
  lg_departure_date :: date
  lg_expected_days :: int
  lg_actual_gate :: real
  lg_actual_days :: int
  lg_pedido :: int
  lg_carrier_idx :: nat
  lg_status_idx :: nat
  lg_peso_z :: real
  lg_volume_z :: real
  lg_frete_z :: real
  lg_destinatario :: string
  lg_endereco :: string
  lg_cidade :: string
  lg_estado :: string
  lg_cep :: string
  lg_rastreamento :: int
  lg_motivo_gate :: real
  lg_motivo :: string
  lg_tentativas :: int
  lg_responsavel :: string

definition lg_carriers :: "string list" where
  "lg_carriers = [''Correios'', ''FedEx'', ''DHL'', ''Transportadora XYZ'', ''Jadlog'']"

definition lg_carrier_weights :: "real list" where
  "lg_carrier_weights = [0.4, 0.2, 0.15, 0.15, 0.1]"

definition lg_statuses :: "string list" where
  "lg_statuses = [''Entregue'', ''Em Tr'' @ a_circ @ ''nsito'', ''Atrasado'', ''Extraviado'', ''Devolvido'']"

definition lg_status_weights :: "real list" where
  "lg_status_weights = [0.7, 0.2, 0.05, 0.03, 0.02]"

definition logistics_row :: "nat \<Rightarrow> logistics_draws \<Rightarrow> row" where
  "logistics_row i d =
     (let departure_date = lg_departure_date d;
          expected_date = departure_date + timedelta_days (lg_expected_days d);
          actual_date = (if 0.1 < lg_actual_gate d
                         then Some (expected_date + timedelta_days (lg_actual_days d)) else None)
      in [
        (''ID_Entrega'', PyStr (''ENT'' @ format_0d 6 (int i + 1))),
        (''Pedido_ID'', PyStr (''PED'' @ format_0d 6 (lg_pedido d))),
        (''Transportadora'', PyStr (np_choice lg_carriers lg_carrier_weights (lg_carrier_idx d))),
        (''Data_Saida'', PyStr (strftime_Ymd departure_date)),
        (''Data_Prevista'', PyStr (strftime_Ymd expected_date)),
        (''Data_Entrega'', (case actual_date of Some ad \<Rightarrow> PyStr (strftime_Ymd ad) | None \<Rightarrow> PyNone)),
        (''Status'', PyStr (np_choice lg_statuses lg_status_weights (lg_status_idx d))),
        (''Peso_Kg'', PyFloat (py_round (np_normal 5 3 (lg_peso_z d)) 2)),
        (''Volume_M3'', PyFloat (py_round (np_normal 0.05 0.03 (lg_volume_z d)) 3)),
        (''Valor_Frete'', PyFloat (py_round (np_normal 25 15 (lg_frete_z d)) 2)),
        (''Destinatario'', PyStr (lg_destinatario d)),
        (''Endereco'', PyStr (lg_endereco d)),
        (''Cidade'', PyStr (lg_cidade d)),
        (''Estado'', PyStr (lg_estado d)),
        (''CEP'', PyStr (lg_cep d)),
        (''Rastreamento'', PyStr (''BR'' @ str_int (lg_rastreamento d))),
        (''Motivo_Atraso'', opt_str (0.85 < lg_motivo_gate d) (lg_motivo d)),
        (''Tentativas_Entrega'', PyInt (lg_tentativas d)),
        (''Responsavel'', PyStr (lg_responsavel d))])"

definition logistics_data :: "int \<Rightarrow> (nat \<Rightarrow> logistics_draws) \<Rightarrow> row list" where
  "logistics_data num_rows draws = map (\<lambda>i. logistics_row i (draws i)) (range num_rows)"

definition generate_logistics_data :: "int \<Rightarrow> (nat \<Rightarrow> logistics_draws) \<Rightarrow> run_result" where
  "generate_logistics_data num_rows draws =
     \<lparr>csv_path = ''../../samples/logistica_entregas.csv'',
      csv_rows = logistics_data num_rows draws,
      printed = ''Arquivo 'logistica_entregas.csv' gerado com '' @ str_int num_rows @ '' linhas.''\<rparr>"

section \<open>Marketing\<close>

text \<open>
  A row whose computation raises is never built: the exception leaves the loop and the
  generator. \<open>bind_err\<close> sequences the steps that may raise; \<open>collect\<close> is the loop.
\<close>

definition bind_err :: "'e + 'a \<Rightarrow> ('a \<Rightarrow> 'e + 'b) \<Rightarrow> 'e + 'b" where
  "bind_err m f = (case m of Inl e \<Rightarrow> Inl e | Inr v \<Rightarrow> f v)"

fun collect :: "(nat \<Rightarrow> py_error + row) \<Rightarrow> nat list \<Rightarrow> row list \<Rightarrow> py_error + row list" where
  "collect f [] data = Inr data"
| "collect f (i # is) data =
     (case f i of Inl e \<Rightarrow> Inl e | Inr r \<Rightarrow> collect f is (data @ [r]))"

record marketing_draws =
  mk_start_date :: date
  mk_end_days :: int
  mk_investment_z :: real
  mk_impressions_z :: real
  mk_clicks_beta :: real
  mk_conversions_beta :: real
  mk_nome :: string
  mk_channel_idx :: nat
  mk_publico :: int
  mk_segment_idx :: nat
  mk_status_idx :: nat
  mk_responsavel :: string
  mk_objetivo_idx :: nat
  mk_engajamento :: int
  mk_bounce :: int

definition mk_channels :: "string list" where
  "mk_channels = [''Google Ads'', ''Facebook'', ''Instagram'', ''LinkedIn'', ''Email Marketing'']"

definition mk_channel_weights :: "real list" where
  "mk_channel_weights = [0.3, 0.25, 0.2, 0.15, 0.1]"

definition mk_statuses :: "string list" where
  "mk_statuses = [''Ativa'', ''Pausada'', ''Finalizada'', ''Cancelada'']"

definition mk_status_weights :: "real list" where
  "mk_status_weights = [0.4, 0.2, 0.35, 0.05]"

definition mk_segments :: "string list" where
  "mk_segments = [''18-24'', ''25-34'', ''35-44'', ''45-54'', ''55+'']"

definition mk_segment_weights :: "real list" where
  "mk_segment_weights = [0.2, 0.3, 0.25, 0.15, 0.1]"

definition marketing_row :: "nat \<Rightarrow> marketing_draws \<Rightarrow> py_error + row" where
  "marketing_row i d =
     (let start_date = mk_start_date d;
          end_date = start_date + timedelta_days (mk_end_days d);
          investment = py_round (np_lognormal 7 1.2 (mk_investment_z d)) 2;
          impressions = py_int (np_lognormal 12 1.5 (mk_impressions_z d));
          clicks = py_int (of_int impressions * mk_clicks_beta d);
          conversions = py_int (of_int clicks * mk_conversions_beta d)
      in
      bind_err (if 0 < impressions
                then bind_err (truediv (of_int clicks) (of_int impressions)) (\<lambda>q. Inr (PyFloat (q * 100)))
                else Inr (PyInt 0)) (\<lambda>ctr.
      bind_err (if 0 < clicks
                then bind_err (truediv investment (of_int clicks)) (\<lambda>q. Inr (PyFloat q))
                else Inr (PyInt 0)) (\<lambda>cpc.
      bind_err (if 0 < conversions
                then bind_err (truediv investment (of_int conversions)) (\<lambda>q. Inr (PyFloat q))
                else Inr (PyInt 0)) (\<lambda>cpa.
      bind_err (truediv (of_int conversions * 50 - investment) investment) (\<lambda>q.
      let roi = q * 100
      in Inr [
        (''ID_Campanha'', PyStr (''CAMP'' @ format_0d 5 (int i + 1))),
        (''Nome_Campanha'', PyStr (butlast (mk_nome d))),
        (''Data_Inicio'', PyStr (strftime_Ymd start_date)),
        (''Data_Fim'', PyStr (strftime_Ymd end_date)),
        (''Canal'', PyStr (np_choice mk_channels mk_channel_weights (mk_channel_idx d))),
        (''Investimento'', PyFloat investment),
        (''Impressoes'', PyInt impressions),
        (''Cliques'', PyInt clicks),
        (''Conversoes'', PyInt conversions),
        (''CTR'', round_val ctr 2),
        (''CPC'', round_val cpc 2),
        (''CPA'', round_val cpa 2),
        (''ROI'', PyFloat (py_round roi 2)),
        (''Publico_Alvo'', PyStr (str_int (mk_publico d) @ '' pessoas'')),
        (''Segmento'', PyStr (np_choice mk_segments mk_segment_weights (mk_segment_idx d))),
        (''Status'', PyStr (np_choice mk_statuses mk_status_weights (mk_status_idx d))),
        (''Responsavel'', PyStr (mk_responsavel d)),
        (''Objetivo'', PyStr (choice [''Aumento Vendas'', ''Gera'' @ c_cedil @ a_tilde @ ''o Leads'',
           ''Brand Awareness'', ''Reten'' @ c_cedil @ a_tilde @ ''o''] (mk_objetivo_idx d))),
        (''Metricas_Adicionais'', PyStr (''Engajamento: '' @ str_int (mk_engajamento d)
           @ ''%, Bounce Rate: '' @ str_int (mk_bounce d) @ ''%''))])))))"

definition marketing_data :: "int \<Rightarrow> (nat \<Rightarrow> marketing_draws) \<Rightarrow> py_error + row list" where
  "marketing_data num_rows draws = collect (\<lambda>i. marketing_row i (draws i)) (range num_rows) []"

definition generate_marketing_data :: "int \<Rightarrow> (nat \<Rightarrow> marketing_draws) \<Rightarrow> py_error + run_result" where
  "generate_marketing_data num_rows draws =
     bind_err (marketing_data num_rows draws) (\<lambda>data. Inr
       \<lparr>csv_path = ''../../samples/marketing_digital.csv'',
        csv_rows = data,
        printed = ''Arquivo 'marketing_digital.csv' gerado com '' @ str_int num_rows @ '' linhas.''\<rparr>)"

section \<open>Production\<close>

record production_draws =
  pr_start_date :: date
  pr_planned_qty :: int
  pr_produced_beta :: real
  pr_production_time :: int
  pr_produto :: string
  pr_machine_idx :: nat
  pr_operador :: string
  pr_defeitos :: int
  pr_materia_z :: real
  pr_mao_obra_z :: real
  pr_status_idx :: nat
  pr_linha :: int
  pr_shift_idx :: nat
  pr_qualidade_idx :: nat
  pr_observacoes_gate :: real
  pr_observacoes :: string

definition pr_machines :: "string list" where
  "pr_machines = [''M'' @ a_acute @ ''quina A'', ''M'' @ a_acute @ ''quina B'', ''M'' @ a_acute @ ''quina C'',
     ''Linha Autom'' @ a_acute @ ''tica 1'', ''Linha Autom'' @ a_acute @ ''tica 2'']"

definition pr_machine_weights :: "real list" where
  "pr_machine_weights = [0.2, 0.2, 0.2, 0.2, 0.2]"

definition pr_statuses :: "string list" where
  "pr_statuses = [''Conclu'' @ i_acute @ ''da'', ''Em Andamento'', ''Parada'', ''Cancelada'']"

definition pr_status_weights :: "real list" where
  "pr_status_weights = [0.6, 0.3, 0.08, 0.02]"

definition pr_shifts :: "string list" where
  "pr_shifts = [''Manh'' @ a_tilde, ''Tarde'', ''Noite'']"

definition pr_shift_weights :: "real list" where
  "pr_shift_weights = [0.4, 0.35, 0.25]"

definition production_row :: "nat \<Rightarrow> production_draws \<Rightarrow> py_error + row" where
  "production_row i d =
     (let start_date = pr_start_date d;
          planned_qty = pr_planned_qty d;
          produced_qty = py_int (of_int planned_qty * pr_produced_beta d);
          production_time = pr_production_time d
      in
      bind_err (truediv (of_int produced_qty) (of_int planned_qty)) (\<lambda>q.
      let efficiency = q * 100
      in Inr [
        (''ID_Ordem'', PyStr (''ORD'' @ format_0d 6 (int i + 1))),
        (''Produto'', PyStr (butlast (pr_produto d))),
        (''Quantidade_Planejada'', PyInt planned_qty),
        (''Quantidade_Produzida'', PyInt produced_qty),
        (''Data_Inicio'', PyStr (strftime_YmdHM start_date)),
        (''Data_Fim'', PyStr (strftime_YmdHM (start_date + timedelta_minutes production_time))),
        (''Maquina'', PyStr (np_choice pr_machines pr_machine_weights (pr_machine_idx d))),
        (''Operador'', PyStr (pr_operador d)),
        (''Tempo_Producao_Min'', PyInt production_time),
        (''Eficiencia'', PyFloat (py_round efficiency 2)),
        (''Defeitos'', PyInt (pr_defeitos d)),
        (''Custo_Materia_Prima'', PyFloat (py_round (np_lognormal 8 1 (pr_materia_z d)) 2)),
        (''Custo_Mao_Obra'', PyFloat (py_round (np_lognormal 7 0.8 (pr_mao_obra_z d)) 2)),
        (''Status'', PyStr (np_choice pr_statuses pr_status_weights (pr_status_idx d))),
        (''Linha_Producao'', PyStr (''Linha '' @ str_int (pr_linha d))),
        (''Turno'', PyStr (np_choice pr_shifts pr_shift_weights (pr_shift_idx d))),
        (''Qualidade'', PyStr (choice [''A'', ''B'', ''C'', ''D''] (pr_qualidade_idx d))),
        (''Observacoes'', opt_str (0.8 < pr_observacoes_gate d) (pr_observacoes d))]))"

definition production_data :: "int \<Rightarrow> (nat \<Rightarrow> production_draws) \<Rightarrow> py_error + row list" where
  "production_data num_rows draws = collect (\<lambda>i. production_row i (draws i)) (range num_rows) []"

definition generate_production_data :: "int \<Rightarrow> (nat \<Rightarrow> production_draws) \<Rightarrow> py_error + run_result" where
  "generate_production_data num_rows draws =
     bind_err (production_data num_rows draws) (\<lambda>data. Inr
       \<lparr>csv_path = ''../../samples/producao_manufatura.csv'',
        csv_rows = data,
        printed = ''Arquivo 'producao_manufatura.csv' gerado com '' @ str_int num_rows @ '' linhas.''\<rparr>)"

section \<open>Inventory\<close>

record inventory_draws =
  iv_movement_date :: date
  iv_unit_value_z :: real
  iv_qty_moved :: int
  iv_current_stock :: int
  iv_sku :: int
  iv_nome :: string
  iv_category_idx :: nat
  iv_fornecedor :: string
  iv_armazem :: int
  iv_prateleira :: int
  iv_movement_idx :: nat
  iv_motivo :: string
  iv_responsavel :: string
  iv_vencimento_gate :: real
  iv_vencimento_days :: int
  iv_lote :: int
  iv_status_idx :: nat

definition iv_categories :: "string list" where
  "iv_categories = [''Eletr'' @ o_circ @ ''nicos'', ''Roupas'', ''Alimentos'', ''Ferramentas'',
     ''M'' @ o_acute @ ''veis'']"

definition iv_category_weights :: "real list" where
  "iv_category_weights = [0.25, 0.2, 0.2, 0.15, 0.2]"

definition iv_movement_types :: "string list" where
  "iv_movement_types = [''Entrada'', ''Sa'' @ i_acute @ ''da'', ''Ajuste'', ''Transfer'' @ e_circ @ ''ncia'']"

definition iv_movement_weights :: "real list" where
  "iv_movement_weights = [0.3, 0.5, 0.15, 0.05]"

definition iv_statuses :: "string list" where
  "iv_statuses = [''Dispon'' @ i_acute @ ''vel'', ''Reservado'', ''Danificado'', ''Vencido'']"

definition iv_status_weights :: "real list" where
  "iv_status_weights = [0.8, 0.1, 0.05, 0.05]"

definition inventory_row :: "nat \<Rightarrow> inventory_draws \<Rightarrow> row" where
  "inventory_row i d =
     (let movement_date = iv_movement_date d;
          unit_value = py_round (np_lognormal 5 1.5 (iv_unit_value_z d)) 2;
          qty_moved = iv_qty_moved d;
          current_stock = iv_current_stock d
      in [
        (''SKU'', PyStr (''SKU'' @ str_int (iv_sku d))),
        (''Nome_Produto'', PyStr (butlast (iv_nome d))),
        (''Categoria'', PyStr (np_choice iv_categories iv_category_weights (iv_category_idx d))),
        (''Fornecedor'', PyStr (iv_fornecedor d)),
        (''Quantidade_Estoque'', PyInt current_stock),
        (''Valor_Unitario'', PyFloat unit_value),
        (''Valor_Total'', PyFloat (py_round (of_int current_stock * unit_value) 2)),
        (''Localizacao'', PyStr (''Armaz'' @ e_acute @ ''m '' @ str_int (iv_armazem d)
           @ '' - Prateleira '' @ str_int (iv_prateleira d))),
        (''Data_Ultima_Movimentacao'', PyStr (strftime_Ymd movement_date)),
        (''Tipo_Movimentacao'', PyStr (np_choice iv_movement_types iv_movement_weights (iv_movement_idx d))),
        (''Quantidade_Movimentada'', PyInt qty_moved),
        (''Saldo_Apos_Movimentacao'', PyInt current_stock),
        (''Motivo'', PyStr (butlast (iv_motivo d))),
        (''Responsavel'', PyStr (iv_responsavel d)),
        (''Data_Vencimento'', opt_str (0.7 < iv_vencimento_gate d)
           (strftime_Ymd (movement_date + timedelta_days (iv_vencimento_days d)))),
        (''Lote'', PyStr (''LOTE'' @ str_int (iv_lote d))),
        (''Status'', PyStr (np_choice iv_statuses iv_status_weights (iv_status_idx d)))])"

definition inventory_data :: "int \<Rightarrow> (nat \<Rightarrow> inventory_draws) \<Rightarrow> row list" where
  "inventory_data num_rows draws = map (\<lambda>i. inventory_row i (draws i)) (range num_rows)"

definition generate_inventory_data :: "int \<Rightarrow> (nat \<Rightarrow> inventory_draws) \<Rightarrow> run_result" where
  "generate_inventory_data num_rows draws =
     \<lparr>csv_path = ''../../samples/inventario_produtos.csv'',
      csv_rows = inventory_data num_rows draws,
      printed = ''Arquivo 'inventario_produtos.csv' gerado com '' @ str_int num_rows @ '' linhas.''\<rparr>"

section \<open>Customers\<close>

record customers_draws =
  cu_registration_date :: date
  cu_purchase_gate :: real
  cu_purchase_days :: int
  cu_total_z :: real
  cu_num_orders :: int
  cu_nome :: string
  cu_doc_gate :: real
  cu_cpf :: string
  cu_cnpj :: string
  cu_email :: string
  cu_telefone :: string
  cu_cidade :: string
  cu_estado :: string
  cu_cep :: string
  cu_idade :: int
  cu_gender_idx :: nat
  cu_renda_z :: real
  cu_score :: int
  cu_status_idx :: nat
  cu_preferencias_idx :: "nat list"
  cu_channel_idx :: nat

definition cu_genders :: "string list" where
  "cu_genders = [''Masculino'', ''Feminino'', ''Outro'']"

definition cu_gender_weights :: "real list" where
  "cu_gender_weights = [0.48, 0.5, 0.02]"

definition cu_statuses :: "string list" where
  "cu_statuses = [''Ativo'', ''Inativo'', ''Bloqueado'', ''VIP'']"

definition cu_status_weights :: "real list" where
  "cu_status_weights = [0.7, 0.25, 0.03, 0.02]"

definition cu_channels :: "string list" where
  "cu_channels = [''Site'', ''Indica'' @ c_cedil @ a_tilde @ ''o'', ''Redes Sociais'', ''Email Marketing'',
     ''Busca Org'' @ a_circ @ ''nica'']"

definition cu_channel_weights :: "real list" where
  "cu_channel_weights = [0.3, 0.2, 0.2, 0.15, 0.15]"

definition customers_row :: "nat \<Rightarrow> customers_draws \<Rightarrow> row" where
  "customers_row i d =
     (let registration_date = cu_registration_date d;
          last_purchase = (if 0.2 < cu_purchase_gate d
                           then Some (registration_date + timedelta_days (cu_purchase_days d)) else None);
          total_purchases = (case last_purchase of
                               Some lp \<Rightarrow> PyFloat (py_round (np_lognormal 7 1.5 (cu_total_z d)) 2)
                             | None \<Rightarrow> PyInt 0);
          num_orders = (if 0 < num total_purchases then cu_num_orders d else 0)
      in [
        (''ID_Cliente'', PyStr (''CLI'' @ format_0d 6 (int i + 1))),
        (''Nome'', PyStr (cu_nome d)),
        (''CPF_CNPJ'', PyStr (if 0.1 < cu_doc_gate d then cu_cpf d else cu_cnpj d)),
        (''Email'', PyStr (cu_email d)),
        (''Telefone'', PyStr (cu_telefone d)),
        (''Data_Cadastro'', PyStr (strftime_Ymd registration_date)),
        (''Data_Ultima_Compra'', (case last_purchase of Some lp \<Rightarrow> PyStr (strftime_Ymd lp) | None \<Rightarrow> PyNone)),
        (''Valor_Total_Compras'', total_purchases),
        (''Numero_Pedidos'', PyInt num_orders),
        (''Cidade'', PyStr (cu_cidade d)),
        (''Estado'', PyStr (cu_estado d)),
        (''CEP'', PyStr (cu_cep d)),
        (''Idade'', PyInt (cu_idade d)),
        (''Genero'', PyStr (np_choice cu_genders cu_gender_weights (cu_gender_idx d))),
        (''Renda_Estimada'', PyFloat (py_round (np_lognormal 9 1 (cu_renda_z d)) 2)),
        (''Score_Credito'', PyInt (cu_score d)),
        (''Status'', PyStr (np_choice cu_statuses cu_status_weights (cu_status_idx d))),
        (''Preferencias'', PyStr (join '', '' (sample
           [''Eletr'' @ o_circ @ ''nicos'', ''Roupas'', ''Casa'', ''Esportes'', ''Livros'']
           (cu_preferencias_idx d)))),
        (''Canal_Aquisicao'', PyStr (np_choice cu_channels cu_channel_weights (cu_channel_idx d)))])"

definition customers_data :: "int \<Rightarrow> (nat \<Rightarrow> customers_draws) \<Rightarrow> row list" where
  "customers_data num_rows draws = map (\<lambda>i. customers_row i (draws i)) (range num_rows)"

definition generate_customers_data :: "int \<Rightarrow> (nat \<Rightarrow> customers_draws) \<Rightarrow> run_result" where
  "generate_customers_data num_rows draws =
     \<lparr>csv_path = ''../../samples/dados_clientes.csv'',
      csv_rows = customers_data num_rows draws,
      printed = ''Arquivo 'dados_clientes.csv' gerado com '' @ str_int num_rows @ '' linhas.''\<rparr>"

section \<open>Suppliers\<close>

record suppliers_draws =
  su_registration_date :: date
  su_purchase_gate :: real
  su_purchase_days :: int
  su_total_z :: real
  su_empresa :: string
  su_cnpj :: string
  su_contato :: string
  su_email :: string
  su_telefone :: string
  su_category_idx :: nat
  su_payment_idx :: nat
  su_status_idx :: nat
  su_avaliacao_u :: real
  su_condicoes_idx :: nat
  su_desconto_u :: real
  su_produtos :: "string list"
  su_cidade :: string
  su_estado :: string

definition su_categories :: "string list" where
  "su_categories = [''Mat'' @ e_acute @ ''ria Prima'', ''Servi'' @ c_cedil @ ''os'', ''Equipamentos'',
     ''Software'', ''Log'' @ i_acute @ ''stica'']"

definition su_category_weights :: "real list" where
  "su_category_weights = [0.3, 0.2, 0.2, 0.15, 0.15]"

definition su_statuses :: "string list" where
  "su_statuses = [''Ativo'', ''Inativo'', ''Suspenso'', ''Preferencial'']"

definition su_status_weights :: "real list" where
  "su_status_weights = [0.75, 0.15, 0.05, 0.05]"

definition su_payment_terms :: "string list" where
  "su_payment_terms = [a_grave_cap @ '' vista'', ''15 dias'', ''30 dias'', ''45 dias'', ''60 dias'']"

definition su_payment_weights :: "real list" where
  "su_payment_weights = [0.2, 0.3, 0.3, 0.15, 0.05]"

definition suppliers_row :: "nat \<Rightarrow> suppliers_draws \<Rightarrow> row" where
  "suppliers_row i d =
     (let registration_date = su_registration_date d;
          last_purchase = (if 0.1 < su_purchase_gate d
                           then Some (registration_date + timedelta_days (su_purchase_days d)) else None);
          total_purchases = (case last_purchase of
                               Some lp \<Rightarrow> PyFloat (py_round (np_lognormal 10 1.5 (su_total_z d)) 2)
                             | None \<Rightarrow> PyInt 0)
      in [
        (''ID_Fornecedor'', PyStr (''FOR'' @ format_0d 5 (int i + 1))),
        (''Nome_Empresa'', PyStr (su_empresa d)),
        (''CNPJ'', PyStr (su_cnpj d)),
        (''Contato'', PyStr (su_contato d)),
        (''Email'', PyStr (su_email d)),
        (''Telefone'', PyStr (su_telefone d)),
        (''Categoria'', PyStr (np_choice su_categories su_category_weights (su_category_idx d))),
        (''Prazo_Pagamento'', PyStr (np_choice su_payment_terms su_payment_weights (su_payment_idx d))),
        (''Valor_Total_Compras'', total_purchases),
        (''Ultima_Compra'', (case last_purchase of Some lp \<Rightarrow> PyStr (strftime_Ymd lp) | None \<Rightarrow> PyNone)),
        (''Status'', PyStr (np_choice su_statuses su_status_weights (su_status_idx d))),
        (''Avaliacao'', PyFloat (py_round (uniform 1 5 (su_avaliacao_u d)) 1)),
        (''Condicoes_Pagamento'', PyStr (choice [''Boleto'', ''Transfer'' @ e_circ @ ''ncia'',
           ''Cart'' @ a_tilde @ ''o'', ''Cheque''] (su_condicoes_idx d))),
        (''Desconto_Medio'', PyFloat (py_round (uniform 0 15 (su_desconto_u d)) 2)),
        (''Produtos_Fornecidos'', PyStr (join '', '' (su_produtos d))),
        (''Cidade'', PyStr (su_cidade d)),
        (''Estado'', PyStr (su_estado d)),
        (''Data_Cadastro'', PyStr (strftime_Ymd registration_date))])"

definition suppliers_data :: "int \<Rightarrow> (nat \<Rightarrow> suppliers_draws) \<Rightarrow> row list" where
  "suppliers_data num_rows draws = map (\<lambda>i. suppliers_row i (draws i)) (range num_rows)"

definition generate_suppliers_data :: "int \<Rightarrow> (nat \<Rightarrow> suppliers_draws) \<Rightarrow> run_result" where
  "generate_suppliers_data num_rows draws =
     \<lparr>csv_path = ''../../samples/fornecedores_compras.csv'',
      csv_rows = suppliers_data num_rows draws,
      printed = ''Arquivo 'fornecedores_compras.csv' gerado com '' @ str_int num_rows @ '' linhas.''\<rparr>"

section \<open>Orchestrator\<close>

text \<open>
  The script \<open>generate_all.py\<close>. An exception is kept as the handler of \<open>main\<close> sees
  it: an instance of \<open>ImportError\<close> (a \<open>ModuleNotFoundError\<close> is one) or any other
  \<open>Exception\<close>, with its message \<open>str(e)\<close>.
\<close>

datatype raised = ImportError string | Exception string

text \<open>
  A process ends with the lines it printed, the exception that reached the top level
  uncaught (the interpreter prints its traceback and exits with status 1), and its exit
  status.
\<close>

record process =
  stdout :: "string list"
  uncaught :: "raised option"
  exit_status :: int

text \<open>A generator call either raises or returns after printing its line.\<close>

type_synonym call = "raised + string"

record generator_calls =
  call_ecommerce_sales :: call
  call_controllership :: call
  call_hr :: call
  call_logistics :: call
  call_marketing :: call
  call_production :: call
  call_inventory :: call
  call_customers :: call
  call_suppliers :: call
  call_cashflow :: call

text \<open>The statements of the \<open>try\<close> block up to the first exception.\<close>

fun run_calls :: "call list \<Rightarrow> string list \<Rightarrow> string list \<times> raised option" where
  "run_calls [] out = (out, None)"
| "run_calls (c # cs) out =
     (case c of Inl e \<Rightarrow> (out, Some e) | Inr line \<Rightarrow> run_calls cs (out @ [line]))"

definition main :: "generator_calls \<Rightarrow> process" where
  "main g =
     (let out = [''Iniciando gera'' @ c_cedil @ a_tilde @ ''o de dados CSV...'', replicate 50 CHR ''='']
      in case run_calls [call_ecommerce_sales g, call_controllership g, call_hr g, call_logistics g,
                call_marketing g, call_production g, call_inventory g, call_customers g,
                call_suppliers g, call_cashflow g] out of
           (out', None) \<Rightarrow>
             \<lparr>stdout = out' @ [replicate 50 CHR ''='',
                  ''Todos os arquivos CSV foram gerados com sucesso!'',
                  ''Arquivos salvos em: ../../samples/''],
              uncaught = None, exit_status = 0\<rparr>
         | (out', Some (ImportError e)) \<Rightarrow>
             \<lparr>stdout = out' @ [''Erro de importa'' @ c_cedil @ a_tilde @ ''o: '' @ e,
                  ''Certifique-se de que todas as depend'' @ e_circ @ ''ncias est'' @ a_tilde @ ''o instaladas:'',
                  ''pip install faker pandas numpy''],
              uncaught = None, exit_status = 1\<rparr>
         | (out', Some (Exception e)) \<Rightarrow>
             \<lparr>stdout = out' @ [''Erro durante a gera'' @ c_cedil @ a_tilde @ ''o: '' @ e],
              uncaught = None, exit_status = 1\<rparr>)"

text \<open>
  The imports at the top of the script run before \<open>main\<close> is called. Every generator
  module starts with \<open>import pandas\<close>, \<open>import numpy\<close>, \<open>from faker import Faker\<close>, so
  the first of the three that is not installed raises out of the first import.
\<close>

definition import_generators :: "(string \<Rightarrow> bool) \<Rightarrow> raised option" where
  "import_generators installed =
     (case filter (\<lambda>m. \<not> installed m) [''pandas'', ''numpy'', ''faker''] of
        [] \<Rightarrow> None
      | m # ms \<Rightarrow> Some (ImportError (''No module named '' @ [CHR 0x27] @ m @ [CHR 0x27])))"

definition generate_all :: "(string \<Rightarrow> bool) \<Rightarrow> generator_calls \<Rightarrow> process" where
  "generate_all installed g =
     (case import_generators installed of
        Some e \<Rightarrow> \<lparr>stdout = [], uncaught = Some e, exit_status = 1\<rparr>
      | None \<Rightarrow> main g)"

section \<open>Auxiliary notions for the properties\<close>

text \<open>The column names of an e-commerce row, in the order of the dict literal.\<close>

definition ecommerce_columns :: "string list" where
  "ecommerce_columns = [''ID_Pedido'', ''Data_Pedido'', ''Cliente_ID'', ''Produto'', ''Quantidade'',
     ''Preco_Unitario'', ''Total'', ''Status'', ''Metodo_Pagamento'', ''Frete'', ''Desconto'',
     ''Canal_Venda'', ''Cidade'', ''Estado'', ''Avaliacao'', ''Data_Entrega'', ''Motivo_Cancelamento'',
     ''Valor_Devolvido'', ''Categoria_Produto'', ''SKU'']"

text \<open>Reading a decimal string back, as \<open>int(s)\<close> does on digits.\<close>

definition digits_value :: "string \<Rightarrow> nat" where
  "digits_value s = foldl (\<lambda>a c. 10 * a + (of_char c - 48)) 0 s"

text \<open>
  The ranges of the production draws: \<open>random.randint(100, 10000)\<close> for the planned
  quantity and a beta sample, which lies in the unit interval.
\<close>

definition production_draws_ok :: "production_draws \<Rightarrow> bool" where
  "production_draws_ok d \<longleftrightarrow>
     100 \<le> pr_planned_qty d \<and> pr_planned_qty d \<le> 10000 \<and>
     0 \<le> pr_produced_beta d \<and> pr_produced_beta d \<le> 1"

subsection \<open>Sample draws\<close>

definition cashflow_sample :: cashflow_draws where
  "cashflow_sample =
     \<lparr>cf_transaction_date = 738945, cf_type_idx = 0, cf_value_z = - 20 / 3,
      cf_descricao = ''Pagamento de fatura mensal.'', cf_category_idx = 0,
      cf_subcategoria = ''fatura'', cf_account_idx = 0, cf_responsavel = ''Ana Lima'',
      cf_comprovante = 123456, cf_centro_custo = ''vendas'', cf_projeto_gate = 0.5,
      cf_projeto = ''Projeto novo.'', cf_currency_idx = 0, cf_taxa_gate = 0.5, cf_taxa_u = 0.5,
      cf_previsao_idx = 0, cf_observacoes_gate = 0.5, cf_observacoes = ''Sem nota.''\<rparr>"

definition cashflow_sample_draws :: "nat \<Rightarrow> cashflow_draws" where
  "cashflow_sample_draws i = cashflow_sample"


definition ecommerce_sample :: ecommerce_draws where
  "ecommerce_sample =
     \<lparr>ec_order_date = 738945, ec_delivery_gate = 0.5, ec_delivery_days = 3, ec_quantity_z = 0,
      ec_unit_price_z = 0, ec_freight_z = 0, ec_discount_gate = 0.5, ec_discount_u = 0.5,
      ec_cliente = 42, ec_produto = ''Camisa azul nova.'', ec_status_idx = 0, ec_payment_idx = 0,
      ec_channel_idx = 0, ec_cidade = ''Recife'', ec_estado = ''PE'', ec_avaliacao_gate = 0.5,
      ec_avaliacao = 4, ec_motivo_gate = 0.5, ec_motivo = ''Sem motivo.'', ec_devolvido_gate = 0.5,
      ec_devolvido_u = 0.5, ec_category_idx = 0, ec_sku = 12345\<rparr>"

definition ecommerce_sample_draws :: "nat \<Rightarrow> ecommerce_draws" where
  "ecommerce_sample_draws i = ecommerce_sample"

text \<open>Normal draws two standard deviations below the mean.\<close>

definition ecommerce_low_draws :: "nat \<Rightarrow> ecommerce_draws" where
  "ecommerce_low_draws i =
     ecommerce_sample\<lparr>ec_quantity_z := - 2, ec_unit_price_z := - 2, ec_freight_z := - 2\<rparr>"



definition hr_sample :: hr_draws where
  "hr_sample =
     \<lparr>hr_admission_date = 738945, hr_age = 30, hr_salary_z = - 45 / 4, hr_nome = ''Ana Lima'',
      hr_cpf = ''123.456.789-09'', hr_cargo = ''Analista'', hr_dept_idx = 1, hr_status_idx = 0,
      hr_demissao_gate = 0.5, hr_demissao_days = 400, hr_gender_idx = 1, hr_education_idx = 2,
      hr_estado_civil_idx = 0, hr_dependentes = 1, hr_horas_gate = 0.5, hr_horas = 10,
      hr_faltas = 2, hr_avaliacao_u = 0.5, hr_beneficios_idx = [2, 3], hr_cidade = ''Recife'',
      hr_estado = ''PE''\<rparr>"

definition hr_sample_draws :: "nat \<Rightarrow> hr_draws" where
  "hr_sample_draws i = hr_sample"

definition logistics_sample :: logistics_draws where
  "logistics_sample =
     \<lparr>lg_departure_date = 738945, lg_expected_days = 5, lg_actual_gate = 0.5, lg_actual_days = 1,
      lg_pedido = 77, lg_carrier_idx = 0, lg_status_idx = 0, lg_peso_z = - 2, lg_volume_z = - 2,
      lg_frete_z = - 2, lg_destinatario = ''Ana Lima'', lg_endereco = ''Rua A, 10'',
      lg_cidade = ''Recife'', lg_estado = ''PE'', lg_cep = ''50000-000'', lg_rastreamento = 123456789,
      lg_motivo_gate = 0.5, lg_motivo = ''Chuva forte.'', lg_tentativas = 1,
      lg_responsavel = ''Rui Costa''\<rparr>"

definition logistics_sample_draws :: "nat \<Rightarrow> logistics_draws" where
  "logistics_sample_draws i = logistics_sample"

definition marketing_sample :: marketing_draws where
  "marketing_sample =
     \<lparr>mk_start_date = 738945, mk_end_days = 30, mk_investment_z = - 35 / 6, mk_impressions_z = - 10,
      mk_clicks_beta = 0.1, mk_conversions_beta = 0.1, mk_nome = ''Campanha de ver'' @ a_tilde @ ''o.'',
      mk_channel_idx = 0, mk_publico = 50000, mk_segment_idx = 1, mk_status_idx = 0,
      mk_responsavel = ''Ana Lima'', mk_objetivo_idx = 0, mk_engajamento = 5, mk_bounce = 40\<rparr>"

definition marketing_sample_draws :: "nat \<Rightarrow> marketing_draws" where
  "marketing_sample_draws i = marketing_sample"

text \<open>An investment whose log-normal sample \<open>exp (7 + 1.2 * (-12))\<close> rounds to \<open>0.0\<close>.\<close>

definition marketing_tiny :: marketing_draws where
  "marketing_tiny = marketing_sample\<lparr>mk_investment_z := - 12\<rparr>"

definition marketing_tiny_draws :: "nat \<Rightarrow> marketing_draws" where
  "marketing_tiny_draws i = marketing_tiny"

definition production_sample :: production_draws where
  "production_sample =
     \<lparr>pr_start_date = 738945, pr_planned_qty = 1000, pr_produced_beta = 0.8,
      pr_production_time = 120, pr_produto = ''Pe'' @ c_cedil @ ''a de metal.'', pr_machine_idx = 0,
      pr_operador = ''Rui Costa'', pr_defeitos = 3, pr_materia_z = - 8, pr_mao_obra_z = - 35 / 4,
      pr_status_idx = 0, pr_linha = 2, pr_shift_idx = 0, pr_qualidade_idx = 0,
      pr_observacoes_gate = 0.5, pr_observacoes = ''Sem nota.''\<rparr>"

definition production_sample_draws :: "nat \<Rightarrow> production_draws" where
  "production_sample_draws i = production_sample"



definition customers_sample :: customers_draws where
  "customers_sample =
     \<lparr>cu_registration_date = 738945, cu_purchase_gate = 0.5, cu_purchase_days = 100,
      cu_total_z = - 14 / 3, cu_num_orders = 5, cu_nome = ''Ana Lima'', cu_doc_gate = 0.5,
      cu_cpf = ''123.456.789-09'', cu_cnpj = ''12.345.678/0001-95'', cu_email = ''ana@example.org'',
      cu_telefone = ''+55 81 5555 0000'', cu_cidade = ''Recife'', cu_estado = ''PE'',
      cu_cep = ''50000-000'', cu_idade = 40, cu_gender_idx = 1, cu_renda_z = - 9, cu_score = 700,
      cu_status_idx = 0, cu_preferencias_idx = [1, 4], cu_channel_idx = 0\<rparr>"

definition customers_sample_draws :: "nat \<Rightarrow> customers_draws" where
  "customers_sample_draws i = customers_sample"

definition suppliers_sample :: suppliers_draws where
  "suppliers_sample =
     \<lparr>su_registration_date = 738945, su_purchase_gate = 0.5, su_purchase_days = 100,
      su_total_z = - 20 / 3, su_empresa = ''Silva SA'', su_cnpj = ''12.345.678/0001-95'',
      su_contato = ''Rui Costa'', su_email = ''rui@example.org'', su_telefone = ''+55 81 5555 0001'',
      su_category_idx = 0, su_payment_idx = 2, su_status_idx = 0, su_avaliacao_u = 0.5,
      su_condicoes_idx = 0, su_desconto_u = 0.5, su_produtos = [''papel'', ''tinta''],
      su_cidade = ''Recife'', su_estado = ''PE''\<rparr>"

definition suppliers_sample_draws :: "nat \<Rightarrow> suppliers_draws" where
  "suppliers_sample_draws i = suppliers_sample"

text \<open>An environment where \<open>faker\<close> is not installed, and calls that all succeed.\<close>

definition without_faker :: "string \<Rightarrow> bool" where
  "without_faker m \<longleftrightarrow> m \<noteq> ''faker''"

definition calls_ok :: generator_calls where
  "calls_ok =
     \<lparr>call_ecommerce_sales = Inr ''Arquivo 'vendas_ecommerce.csv' gerado com 5000 linhas.'',
      call_controllership = Inr ''Arquivo 'controladoria_contabilidade.csv' gerado com 5000 linhas.'',
      call_hr = Inr ''Arquivo 'recursos_humanos.csv' gerado com 5000 linhas.'',
      call_logistics = Inr ''Arquivo 'logistica_entregas.csv' gerado com 5000 linhas.'',
      call_marketing = Inr ''Arquivo 'marketing_digital.csv' gerado com 5000 linhas.'',
      call_production = Inr ''Arquivo 'producao_manufatura.csv' gerado com 5000 linhas.'',
      call_inventory = Inr ''Arquivo 'inventario_produtos.csv' gerado com 5000 linhas.'',
      call_customers = Inr ''Arquivo 'dados_clientes.csv' gerado com 5000 linhas.'',
      call_suppliers = Inr ''Arquivo 'fornecedores_compras.csv' gerado com 5000 linhas.'',
      call_cashflow = Inr ''Arquivo 'financas_fluxo_caixa.csv' gerado com 5000 linhas.''\<rparr>"

section \<open>Properties\<close>

subsection \<open>Loop indices, rounding and the exponential\<close>

lemma length_range: "length (range n) = nat n"
  by (simp add: range_def)

lemma nth_range: "i < nat n \<Longrightarrow> range n ! i = i"
  by (simp add: range_def)

lemma set_range: "set (range n) = {i. i < nat n}"
  by (auto simp: range_def)

lemma range_1: "range 1 = [0]"
  by (simp add: range_def)

lemma range_2: "range 2 = [0, 1]"
  by (simp add: range_def upt_rec)

lemma rint_of_int: "rint (of_int k) = k"
  by (simp add: rint_def)

lemma floor_le_rint: "\<lfloor>x\<rfloor> \<le> rint x"
  unfolding rint_def Let_def by simp

lemma rint_ge: "of_int a \<le> x \<Longrightarrow> a \<le> rint x"
proof -
  assume "of_int a \<le> x"
  then have "a \<le> \<lfloor>x\<rfloor>" by (simp add: le_floor_iff)
  then show ?thesis using floor_le_rint [of x] by linarith
qed

lemma rint_le: "x \<le> of_int b \<Longrightarrow> rint x \<le> b"
proof -
  assume h: "x \<le> of_int b"
  have f: "\<lfloor>x\<rfloor> \<le> b" using h by (simp add: floor_le_iff)
  show ?thesis
  proof (cases "\<lfloor>x\<rfloor> = b")
    case True
    then have "x = of_int b" using h by linarith
    then show ?thesis by (simp add: rint_of_int)
  next
    case False
    then have "\<lfloor>x\<rfloor> + 1 \<le> b" using f by simp
    then show ?thesis using f unfolding rint_def Let_def by auto
  qed
qed

lemma py_round_nonneg: "0 \<le> x \<Longrightarrow> 0 \<le> py_round x n"
proof -
  assume "0 \<le> x"
  then have "of_int 0 \<le> x * 10 ^ n" by simp
  then have "0 \<le> rint (x * 10 ^ n)" by (rule rint_ge)
  then show ?thesis by (simp add: py_round_def)
qed

lemma py_round_le: "x \<le> of_int b \<Longrightarrow> py_round x n \<le> of_int b"
proof -
  assume "x \<le> of_int b"
  then have "x * 10 ^ n \<le> of_int (b * 10 ^ n)" by simp
  then have "rint (x * 10 ^ n) \<le> b * 10 ^ n" by (rule rint_le)
  then have "(of_int (rint (x * 10 ^ n)) :: real) \<le> of_int (b * 10 ^ n)" by linarith
  then show ?thesis by (simp add: py_round_def field_simps)
qed

lemma rint_pos_iff: "0 \<le> x \<Longrightarrow> 0 < rint x \<longleftrightarrow> 1 / 2 < x"
proof -
  assume x: "0 \<le> x"
  then have f0: "0 \<le> \<lfloor>x\<rfloor>" by simp
  show ?thesis
  proof (cases "\<lfloor>x\<rfloor> = 0")
    case True
    then show ?thesis unfolding rint_def Let_def by auto
  next
    case False
    then have f1: "1 \<le> \<lfloor>x\<rfloor>" using f0 by linarith
    then have "1 \<le> x" by (simp add: le_floor_iff)
    moreover have "0 < rint x" using f1 unfolding rint_def Let_def by auto
    ultimately show ?thesis by simp
  qed
qed

lemma py_round_pos_iff: "0 \<le> x \<Longrightarrow> 0 < py_round x 2 \<longleftrightarrow> 1 / 200 < x"
proof -
  assume x: "0 \<le> x"
  then have "0 \<le> x * 10 ^ 2" by simp
  then have "0 < rint (x * 10 ^ 2) \<longleftrightarrow> 1 / 2 < x * 10 ^ 2" by (rule rint_pos_iff)
  then show ?thesis by (simp add: py_round_def) linarith
qed

lemma exp_7_big: "(200 :: real) < exp 7"
proof -
  have q: "1 + (7 / 4) + (7 / 4)\<^sup>2 / 2 \<le> exp (7 / 4 :: real)"
    by (rule exp_lower_Taylor_quadratic) simp
  have "exp (7 :: real) = exp (of_nat 4 * (7 / 4))" by simp
  also have "\<dots> = exp (7 / 4) ^ 4" by (rule exp_of_nat_mult)
  finally have e: "exp (7 :: real) = exp (7 / 4) ^ 4" .
  have "(200 :: real) < (1 + (7 / 4) + (7 / 4)\<^sup>2 / 2) ^ 4" by (simp add: power2_eq_square power4_eq_xxxx)
  also have "\<dots> \<le> exp (7 / 4) ^ 4" using q by (intro power_mono) simp_all
  finally show ?thesis using e by simp
qed

lemma exp_small: "x \<le> - 7 \<Longrightarrow> exp x < (1 / 200 :: real)"
proof -
  assume "x \<le> - 7"
  then have "exp x \<le> exp (- 7 :: real)" by simp
  also have "\<dots> = 1 / exp 7" by (simp add: exp_minus')
  also have "\<dots> < 1 / 200" using exp_7_big by (simp add: field_simps)
  finally show ?thesis .
qed

subsection \<open>The cashflow loop\<close>

lemma cashflow_step_fields:
  "cashflow_step b d = (r, nb) \<Longrightarrow>
     map_of r ''Saldo_Anterior'' = Some (PyFloat (py_round b 2)) \<and>
     map_of r ''Saldo_Apos'' = Some (PyFloat (py_round nb 2))"
  by (auto simp: cashflow_step_def Let_def)

lemma cashflow_loop_length:
  "length (cashflow_loop js draws b data) = length data + length js"
  by (induction js arbitrary: b data) (auto split: prod.splits)

lemma cashflow_loop_append:
  "cashflow_loop js draws b data = data @ cashflow_loop js draws b []"
proof (induction js arbitrary: b data)
  case Nil
  show ?case by simp
next
  case (Cons j js)
  obtain r nb where st: "cashflow_step b (draws j) = (r, nb)"
    by (cases "cashflow_step b (draws j)")
  have "cashflow_loop (j # js) draws b data = (data @ [r]) @ cashflow_loop js draws nb []"
    using st Cons.IH [of nb "data @ [r]"] by simp
  moreover have "cashflow_loop (j # js) draws b [] = [r] @ cashflow_loop js draws nb []"
    using st Cons.IH [of nb "[r]"] by simp
  ultimately show ?case by simp
qed

lemma cashflow_loop_Cons:
  "cashflow_loop (j # js) draws b [] =
     fst (cashflow_step b (draws j)) # cashflow_loop js draws (snd (cashflow_step b (draws j))) []"
proof -
  obtain r nb where st: "cashflow_step b (draws j) = (r, nb)"
    by (cases "cashflow_step b (draws j)")
  then show ?thesis using cashflow_loop_append [of js draws nb "[r]"] by simp
qed

lemma cashflow_loop_consistent:
  "(\<And>i. 0 < i \<Longrightarrow> i < length data \<Longrightarrow>
        (\<exists>x. map_of (data ! i) ''Saldo_Anterior'' = Some (PyFloat x) \<and>
             map_of (data ! (i - 1)) ''Saldo_Apos'' = Some (PyFloat x))) \<Longrightarrow>
   (data \<noteq> [] \<Longrightarrow> map_of (last data) ''Saldo_Apos'' = Some (PyFloat (py_round b 2))) \<Longrightarrow>
   0 < i \<Longrightarrow> i < length (cashflow_loop js draws b data) \<Longrightarrow>
   (\<exists>x. map_of (cashflow_loop js draws b data ! i) ''Saldo_Anterior'' = Some (PyFloat x) \<and>
        map_of (cashflow_loop js draws b data ! (i - 1)) ''Saldo_Apos'' = Some (PyFloat x))"
proof (induction js arbitrary: b data)
  case Nil
  then show ?case by simp
next
  case (Cons j js)
  obtain r nb where st: "cashflow_step b (draws j) = (r, nb)"
    by (cases "cashflow_step b (draws j)")
  note sf = cashflow_step_fields [OF st]
  have eq: "cashflow_loop (j # js) draws b data = cashflow_loop js draws nb (data @ [r])"
    using st by simp
  have "\<exists>x. map_of (cashflow_loop js draws nb (data @ [r]) ! i) ''Saldo_Anterior'' = Some (PyFloat x) \<and>
        map_of (cashflow_loop js draws nb (data @ [r]) ! (i - 1)) ''Saldo_Apos'' = Some (PyFloat x)"
  proof (rule Cons.IH)
    fix k assume k: "0 < k" "k < length (data @ [r])"
    show "\<exists>x. map_of ((data @ [r]) ! k) ''Saldo_Anterior'' = Some (PyFloat x) \<and>
             map_of ((data @ [r]) ! (k - 1)) ''Saldo_Apos'' = Some (PyFloat x)"
    proof (cases "k < length data")
      case True
      then have "k - 1 < length data" by simp
      then show ?thesis using Cons.prems(1) [OF k(1) True] True by (simp add: nth_append)
    next
      case False
      then have kl: "k = length data" using k by simp
      then have ne: "data \<noteq> []" using k by auto
      have "(data @ [r]) ! (k - 1) = last data"
        using kl ne by (simp add: nth_append last_conv_nth)
      then show ?thesis using kl sf Cons.prems(2) [OF ne] by (simp add: nth_append)
    qed
  next
    show "map_of (last (data @ [r])) ''Saldo_Apos'' = Some (PyFloat (py_round nb 2))"
      using sf by simp
  next
    show "0 < i" by fact
  next
    show "i < length (cashflow_loop js draws nb (data @ [r]))" using Cons.prems(4) eq by simp
  qed
  then show ?case using eq by simp
qed

lemma cashflow_step_signed:
  "\<exists>t v. map_of (fst (cashflow_step b d)) ''Tipo'' = Some (PyStr t) \<and>
     map_of (fst (cashflow_step b d)) ''Valor'' = Some (PyFloat v) \<and>
     map_of (fst (cashflow_step b d)) ''Saldo_Anterior'' = Some (PyFloat (py_round b 2)) \<and>
     map_of (fst (cashflow_step b d)) ''Saldo_Apos'' =
       Some (PyFloat (py_round (snd (cashflow_step b d)) 2)) \<and>
     snd (cashflow_step b d) = (if t = ''Entrada'' then b + v else b - v)"
  by (simp add: cashflow_step_def Let_def)

lemma cashflow_loop_nth:
  "i < m \<Longrightarrow>
     cashflow_loop [k..<k + m] draws (cashflow_balance draws k) [] ! i =
       fst (cashflow_step (cashflow_balance draws (k + i)) (draws (k + i)))"
proof (induction m arbitrary: k i)
  case 0
  then show ?case by simp
next
  case (Suc m)
  have u: "[k..<k + Suc m] = k # [Suc k..<Suc k + m]" by (simp add: upt_conv_Cons)
  have l: "cashflow_loop [k..<k + Suc m] draws (cashflow_balance draws k) [] =
      fst (cashflow_step (cashflow_balance draws k) (draws k)) #
      cashflow_loop [Suc k..<Suc k + m] draws (cashflow_balance draws (Suc k)) []"
    unfolding u cashflow_loop_Cons by simp
  show ?case
  proof (cases i)
    case 0
    then show ?thesis unfolding l by simp
  next
    case (Suc j)
    then have "j < m" using Suc.prems by simp
    from Suc.IH [OF this, of "Suc k"] show ?thesis unfolding l using Suc by simp
  qed
qed

lemma cashflow_data_length: "length (cashflow_data num_rows draws) = nat num_rows"
  by (simp add: cashflow_data_def cashflow_loop_length length_range)

lemma cashflow_data_nth:
  "i < nat num_rows \<Longrightarrow>
     cashflow_data num_rows draws ! i = fst (cashflow_step (cashflow_balance draws i) (draws i))"
  using cashflow_loop_nth [of i "nat num_rows" 0 draws] by (simp add: cashflow_data_def range_def)

lemma cashflow_sample_row:
  "map_of (fst (cashflow_step b cashflow_sample)) ''Tipo'' = Some (PyStr ''Entrada'')"
  "map_of (fst (cashflow_step b cashflow_sample)) ''Valor'' = Some (PyFloat 1)"
  by (simp_all add: cashflow_step_def cashflow_sample_def np_choice_def cf_types_def
      np_lognormal_def np_normal_def py_round_def rint_def Let_def)

lemma py_round_balances:
  "py_round 100000 2 = 100000" "py_round 100001 2 = 100001" "py_round 100002 2 = 100002"
  by (simp_all add: py_round_def rint_def Let_def)

text \<open>
  Claim C1. For every row count and all draws the rows of the cashflow generator follow
  one running balance that starts at 100000: row \<open>i\<close> stores the balance before it as
  \<open>Saldo_Anterior\<close> and the balance after it as \<open>Saldo_Apos\<close> (both rounded to 2
  decimals), and the balance after is the balance before plus the row's \<open>Valor\<close> when
  its \<open>Tipo\<close> is \<open>Entrada\<close> and minus it otherwise (an outflow). The balance after
  row \<open>i - 1\<close> is the balance before row \<open>i\<close>, so each row after the first stores as
  \<open>Saldo_Anterior\<close> exactly what the row before it stores as \<open>Saldo_Apos\<close>.
\<close>

theorem cashflow_prefix_consistency:
  "\<exists>bal. bal 0 = 100000 \<and>
     (\<forall>i<length (cashflow_data num_rows draws). \<exists>t v.
        map_of (cashflow_data num_rows draws ! i) ''Tipo'' = Some (PyStr t) \<and>
        map_of (cashflow_data num_rows draws ! i) ''Valor'' = Some (PyFloat v) \<and>
        map_of (cashflow_data num_rows draws ! i) ''Saldo_Anterior'' =
          Some (PyFloat (py_round (bal i) 2)) \<and>
        map_of (cashflow_data num_rows draws ! i) ''Saldo_Apos'' =
          Some (PyFloat (py_round (bal (Suc i)) 2)) \<and>
        bal (Suc i) = (if t = ''Entrada'' then bal i + v else bal i - v)) \<and>
     (\<forall>i. 0 < i \<and> i < length (cashflow_data num_rows draws) \<longrightarrow>
        (\<exists>x. map_of (cashflow_data num_rows draws ! i) ''Saldo_Anterior'' = Some (PyFloat x) \<and>
             map_of (cashflow_data num_rows draws ! (i - 1)) ''Saldo_Apos'' = Some (PyFloat x)))"
proof (intro exI [of _ "cashflow_balance draws"] conjI allI impI)
  show "cashflow_balance draws 0 = 100000" by simp
next
  fix i assume "i < length (cashflow_data num_rows draws)"
  then have i: "i < nat num_rows" by (simp add: cashflow_data_length)
  show "\<exists>t v.
        map_of (cashflow_data num_rows draws ! i) ''Tipo'' = Some (PyStr t) \<and>
        map_of (cashflow_data num_rows draws ! i) ''Valor'' = Some (PyFloat v) \<and>
        map_of (cashflow_data num_rows draws ! i) ''Saldo_Anterior'' =
          Some (PyFloat (py_round (cashflow_balance draws i) 2)) \<and>
        map_of (cashflow_data num_rows draws ! i) ''Saldo_Apos'' =
          Some (PyFloat (py_round (cashflow_balance draws (Suc i)) 2)) \<and>
        cashflow_balance draws (Suc i) =
          (if t = ''Entrada'' then cashflow_balance draws i + v else cashflow_balance draws i - v)"
    using cashflow_step_signed [of "cashflow_balance draws i" "draws i"]
    by (simp add: cashflow_data_nth [OF i])
next
  fix i assume "0 < i \<and> i < length (cashflow_data num_rows draws)"
  then show "\<exists>x. map_of (cashflow_data num_rows draws ! i) ''Saldo_Anterior'' = Some (PyFloat x) \<and>
             map_of (cashflow_data num_rows draws ! (i - 1)) ''Saldo_Apos'' = Some (PyFloat x)"
    unfolding cashflow_data_def by (intro cashflow_loop_consistent) simp_all
qed

theorem cashflow_prefix_consistency_witness:
  "(0 :: nat) < 1 \<and> 1 < length (cashflow_data 2 cashflow_sample_draws) \<and>
   map_of (cashflow_data 2 cashflow_sample_draws ! 0) ''Tipo'' = Some (PyStr ''Entrada'') \<and>
   map_of (cashflow_data 2 cashflow_sample_draws ! 0) ''Valor'' = Some (PyFloat 1) \<and>
   map_of (cashflow_data 2 cashflow_sample_draws ! 0) ''Saldo_Anterior'' = Some (PyFloat 100000) \<and>
   map_of (cashflow_data 2 cashflow_sample_draws ! 0) ''Saldo_Apos'' = Some (PyFloat 100001) \<and>
   map_of (cashflow_data 2 cashflow_sample_draws ! 1) ''Saldo_Anterior'' = Some (PyFloat 100001) \<and>
   map_of (cashflow_data 2 cashflow_sample_draws ! 1) ''Saldo_Apos'' = Some (PyFloat 100002)"
proof -
  let ?rows = "cashflow_data 2 cashflow_sample_draws"
  have len: "length ?rows = 2" by (simp add: cashflow_data_length)
  have tv: "map_of (?rows ! i) ''Tipo'' = Some (PyStr ''Entrada'')"
    "map_of (?rows ! i) ''Valor'' = Some (PyFloat 1)" if "i < 2" for i
    using that by (simp_all add: cashflow_data_nth cashflow_sample_draws_def cashflow_sample_row)
  from cashflow_prefix_consistency [of 2 cashflow_sample_draws] obtain bal
    where b0: "bal 0 = 100000"
      and st: "\<And>i. i < length ?rows \<Longrightarrow> \<exists>t v.
        map_of (?rows ! i) ''Tipo'' = Some (PyStr t) \<and>
        map_of (?rows ! i) ''Valor'' = Some (PyFloat v) \<and>
        map_of (?rows ! i) ''Saldo_Anterior'' = Some (PyFloat (py_round (bal i) 2)) \<and>
        map_of (?rows ! i) ''Saldo_Apos'' = Some (PyFloat (py_round (bal (Suc i)) 2)) \<and>
        bal (Suc i) = (if t = ''Entrada'' then bal i + v else bal i - v)"
    by blast
  from st [of 0] len tv [of 0] b0
  have r0: "map_of (?rows ! 0) ''Saldo_Anterior'' = Some (PyFloat (py_round 100000 2))"
    "map_of (?rows ! 0) ''Saldo_Apos'' = Some (PyFloat (py_round 100001 2))" "bal 1 = 100001"
    by auto
  from st [of 1] len tv [of 1] r0(3)
  have r1: "map_of (?rows ! 1) ''Saldo_Anterior'' = Some (PyFloat (py_round 100001 2))"
    "map_of (?rows ! 1) ''Saldo_Apos'' = Some (PyFloat (py_round 100002 2))"
    by auto
  show ?thesis using len tv [of 0] r0 r1 by (simp add: py_round_balances)
qed

subsection \<open>Rows of the generators without running state\<close>

lemma ecommerce_data_length: "length (ecommerce_data num_rows draws) = nat num_rows"
  by (simp add: ecommerce_data_def length_range)

lemma ecommerce_data_nth:
  "i < nat num_rows \<Longrightarrow> ecommerce_data num_rows draws ! i = ecommerce_row i (draws i)"
  by (simp add: ecommerce_data_def length_range nth_range)

lemma ecommerce_data_set:
  "r \<in> set (ecommerce_data num_rows draws) \<Longrightarrow> \<exists>i. i < nat num_rows \<and> r = ecommerce_row i (draws i)"
  by (auto simp: ecommerce_data_def set_range)

lemma ecommerce_row_keys: "map fst (ecommerce_row i d) = ecommerce_columns"
  by (simp add: ecommerce_row_def ecommerce_columns_def Let_def)

lemma ecommerce_row_total:
  "\<exists>q p f t. map_of (ecommerce_row i d) ''Quantidade'' = Some (PyInt q) \<and>
     map_of (ecommerce_row i d) ''Preco_Unitario'' = Some (PyFloat p) \<and>
     map_of (ecommerce_row i d) ''Frete'' = Some (PyFloat f) \<and>
     map_of (ecommerce_row i d) ''Desconto'' = Some t \<and>
     map_of (ecommerce_row i d) ''Total'' = Some (PyFloat (py_round (of_int q * p + f - num t) 2))"
  by (simp add: ecommerce_row_def Let_def)

lemma py_round_150: "py_round 150 2 = 150"
  by (simp add: py_round_def rint_def Let_def)

lemma py_round_15: "py_round 15 2 = 15"
  by (simp add: py_round_def rint_def Let_def)

lemma py_round_315: "py_round 315 2 = 315"
  by (simp add: py_round_def rint_def Let_def)

lemma ecommerce_sample_fields:
  "map_of (ecommerce_row i ecommerce_sample) ''Quantidade'' = Some (PyInt 2)"
  "map_of (ecommerce_row i ecommerce_sample) ''Preco_Unitario'' = Some (PyFloat 150)"
  "map_of (ecommerce_row i ecommerce_sample) ''Frete'' = Some (PyFloat 15)"
  "map_of (ecommerce_row i ecommerce_sample) ''Desconto'' = Some (PyInt 0)"
  by (simp_all add: ecommerce_row_def ecommerce_sample_def Let_def np_normal_def py_int_def
      py_round_150 py_round_15)

text \<open>
  Claim C2. In every row of the e-commerce generator, for all draws, \<open>Total\<close> is
  \<open>Quantidade * Preco_Unitario + Frete - Desconto\<close> rounded to 2 decimals, computed
  from the values stored in that same row.
\<close>

theorem ecommerce_total_consistent:
  "r \<in> set (ecommerce_data num_rows draws) \<Longrightarrow>
   \<exists>q p f t. map_of r ''Quantidade'' = Some (PyInt q) \<and>
     map_of r ''Preco_Unitario'' = Some (PyFloat p) \<and>
     map_of r ''Frete'' = Some (PyFloat f) \<and>
     map_of r ''Desconto'' = Some t \<and>
     map_of r ''Total'' = Some (PyFloat (py_round (of_int q * p + f - num t) 2))"
  using ecommerce_data_set [of r num_rows draws] ecommerce_row_total by blast

theorem ecommerce_total_consistent_witness:
  "ecommerce_row 0 ecommerce_sample \<in> set (ecommerce_data 1 ecommerce_sample_draws) \<and>
   map_of (ecommerce_row 0 ecommerce_sample) ''Quantidade'' = Some (PyInt 2) \<and>
   map_of (ecommerce_row 0 ecommerce_sample) ''Preco_Unitario'' = Some (PyFloat 150) \<and>
   map_of (ecommerce_row 0 ecommerce_sample) ''Frete'' = Some (PyFloat 15) \<and>
   map_of (ecommerce_row 0 ecommerce_sample) ''Desconto'' = Some (PyInt 0) \<and>
   map_of (ecommerce_row 0 ecommerce_sample) ''Total'' = Some (PyFloat 315)"
proof -
  have m: "ecommerce_row 0 ecommerce_sample \<in> set (ecommerce_data 1 ecommerce_sample_draws)"
    by (simp add: ecommerce_data_def range_1 ecommerce_sample_draws_def)
  from ecommerce_total_consistent [OF m] ecommerce_sample_fields [of 0]
  have "map_of (ecommerce_row 0 ecommerce_sample) ''Total'' = Some (PyFloat (py_round 315 2))"
    by auto
  then show ?thesis using m ecommerce_sample_fields [of 0] by (simp add: py_round_315)
qed

text \<open>
  Claim C3, amended. For every row count the e-commerce generator hands exactly that
  many rows to the file (none when the count is negative), and every row has the same
  20 fields, in the order of \<open>ecommerce_columns\<close>: 20, not 19.
\<close>

theorem ecommerce_rows_and_schema:
  "length (csv_rows (generate_ecommerce_sales num_rows draws)) = nat num_rows \<and>
   (\<forall>r \<in> set (csv_rows (generate_ecommerce_sales num_rows draws)).
      map fst r = ecommerce_columns \<and> length r = 20)"
proof -
  have k: "map fst r = ecommerce_columns \<and> length r = 20"
    if "r \<in> set (ecommerce_data num_rows draws)" for r
  proof -
    from ecommerce_data_set [OF that] obtain i where r: "r = ecommerce_row i (draws i)" by blast
    then have keys: "map fst r = ecommerce_columns" by (simp add: ecommerce_row_keys)
    have "length r = length (map fst r)" by simp
    also have "\<dots> = length ecommerce_columns" by (simp only: keys)
    also have "\<dots> = 20" by (simp add: ecommerce_columns_def)
    finally show ?thesis using keys by simp
  qed
  show ?thesis
    using k by (simp add: generate_ecommerce_sales_def ecommerce_data_length)
qed

theorem ecommerce_rows_and_schema_witness:
  "length (csv_rows (generate_ecommerce_sales 10 ecommerce_sample_draws)) = 10 \<and>
   map fst (csv_rows (generate_ecommerce_sales 10 ecommerce_sample_draws) ! 0) = ecommerce_columns \<and>
   length (csv_rows (generate_ecommerce_sales 10 ecommerce_sample_draws) ! 0) = 20 \<and>
   length ecommerce_columns = 20"
proof -
  let ?rows = "csv_rows (generate_ecommerce_sales 10 ecommerce_sample_draws)"
  note t = ecommerce_rows_and_schema [of 10 ecommerce_sample_draws]
  have len: "length ?rows = 10" using t by simp
  then have "?rows ! 0 \<in> set ?rows" by (intro nth_mem) simp
  then show ?thesis using t len by (simp add: ecommerce_columns_def)
qed

theorem ecommerce_19_fields_counterexample:
  "length (csv_rows (generate_ecommerce_sales 10 ecommerce_sample_draws)) = 10 \<and>
   length (csv_rows (generate_ecommerce_sales 10 ecommerce_sample_draws) ! 0) \<noteq> 19"
proof -
  have "length (map fst (ecommerce_row 0 (ecommerce_sample_draws 0))) = 20"
    by (simp add: ecommerce_row_keys ecommerce_columns_def)
  then show ?thesis
    by (simp add: generate_ecommerce_sales_def ecommerce_data_length ecommerce_data_nth)
qed

lemma logistics_data_length: "length (logistics_data num_rows draws) = nat num_rows"
  by (simp add: logistics_data_def length_range)

lemma logistics_data_nth:
  "i < nat num_rows \<Longrightarrow> logistics_data num_rows draws ! i = logistics_row i (draws i)"
  by (simp add: logistics_data_def length_range nth_range)

lemma ecommerce_row_normal_fields:
  "map_of (ecommerce_row i d) ''Quantidade'' =
     Some (PyInt (max 1 (py_int (np_normal 2 1.5 (ec_quantity_z d)))))"
  "map_of (ecommerce_row i d) ''Preco_Unitario'' =
     Some (PyFloat (py_round (np_normal 150 80 (ec_unit_price_z d)) 2))"
  "map_of (ecommerce_row i d) ''Frete'' =
     Some (PyFloat (py_round (np_normal 15 8 (ec_freight_z d)) 2))"
  by (simp_all add: ecommerce_row_def Let_def)

lemma logistics_row_normal_fields:
  "map_of (logistics_row i d) ''Peso_Kg'' =
     Some (PyFloat (py_round (np_normal 5 3 (lg_peso_z d)) 2))"
  "map_of (logistics_row i d) ''Volume_M3'' =
     Some (PyFloat (py_round (np_normal 0.05 0.03 (lg_volume_z d)) 3))"
  "map_of (logistics_row i d) ''Valor_Frete'' =
     Some (PyFloat (py_round (np_normal 25 15 (lg_frete_z d)) 2))"
  by (simp_all add: logistics_row_def Let_def)

lemmas eval_round = np_normal_def py_round_def rint_def py_int_def Let_def ceiling_def

lemma ecommerce_low_fields:
  "map_of (ecommerce_data 1 ecommerce_low_draws ! 0) ''Quantidade'' = Some (PyInt 1)"
  "map_of (ecommerce_data 1 ecommerce_low_draws ! 0) ''Preco_Unitario'' = Some (PyFloat (- 10))"
  "map_of (ecommerce_data 1 ecommerce_low_draws ! 0) ''Frete'' = Some (PyFloat (- 1))"
  by (simp_all add: ecommerce_data_nth ecommerce_row_normal_fields ecommerce_low_draws_def
      eval_round)

lemma logistics_low_fields:
  "map_of (logistics_data 1 logistics_sample_draws ! 0) ''Peso_Kg'' = Some (PyFloat (- 1))"
  "map_of (logistics_data 1 logistics_sample_draws ! 0) ''Volume_M3'' = Some (PyFloat (- 0.01))"
  "map_of (logistics_data 1 logistics_sample_draws ! 0) ''Valor_Frete'' = Some (PyFloat (- 5))"
  by (simp_all add: logistics_data_nth logistics_row_normal_fields logistics_sample_draws_def
      logistics_sample_def eval_round)

text \<open>
  Claim C6, amended. The fields drawn from the normal sampler other than the e-commerce
  \<open>Quantidade\<close>, namely \<open>Preco_Unitario\<close> and \<open>Frete\<close> of e-commerce and \<open>Peso_Kg\<close>,
  \<open>Volume_M3\<close> and \<open>Valor_Frete\<close> of logistics, store the sample \<open>mu + sigma * z\<close>
  rounded (to 2 decimals, \<open>Volume_M3\<close> to 3) and nothing else, and for some draws each
  of them is negative. \<open>Quantidade\<close> stores \<open>max(1, int(sample))\<close> and is never below 1.
\<close>

theorem normal_fields_stored:
  "(i < nat num_rows \<longrightarrow>
      map_of (ecommerce_data num_rows ec ! i) ''Preco_Unitario'' =
        Some (PyFloat (py_round (np_normal 150 80 (ec_unit_price_z (ec i))) 2)) \<and>
      map_of (ecommerce_data num_rows ec ! i) ''Frete'' =
        Some (PyFloat (py_round (np_normal 15 8 (ec_freight_z (ec i))) 2)) \<and>
      map_of (ecommerce_data num_rows ec ! i) ''Quantidade'' =
        Some (PyInt (max 1 (py_int (np_normal 2 1.5 (ec_quantity_z (ec i)))))) \<and>
      (\<exists>q. map_of (ecommerce_data num_rows ec ! i) ''Quantidade'' = Some (PyInt q) \<and> 1 \<le> q) \<and>
      map_of (logistics_data num_rows lg ! i) ''Peso_Kg'' =
        Some (PyFloat (py_round (np_normal 5 3 (lg_peso_z (lg i))) 2)) \<and>
      map_of (logistics_data num_rows lg ! i) ''Volume_M3'' =
        Some (PyFloat (py_round (np_normal 0.05 0.03 (lg_volume_z (lg i))) 3)) \<and>
      map_of (logistics_data num_rows lg ! i) ''Valor_Frete'' =
        Some (PyFloat (py_round (np_normal 25 15 (lg_frete_z (lg i))) 2))) \<and>
   (\<exists>draws p f. map_of (ecommerce_data 1 draws ! 0) ''Preco_Unitario'' = Some (PyFloat p) \<and> p < 0 \<and>
      map_of (ecommerce_data 1 draws ! 0) ''Frete'' = Some (PyFloat f) \<and> f < 0) \<and>
   (\<exists>draws w v f. map_of (logistics_data 1 draws ! 0) ''Peso_Kg'' = Some (PyFloat w) \<and> w < 0 \<and>
      map_of (logistics_data 1 draws ! 0) ''Volume_M3'' = Some (PyFloat v) \<and> v < 0 \<and>
      map_of (logistics_data 1 draws ! 0) ''Valor_Frete'' = Some (PyFloat f) \<and> f < 0)"
proof (intro conjI impI)
  show "\<exists>draws p f. map_of (ecommerce_data 1 draws ! 0) ''Preco_Unitario'' = Some (PyFloat p) \<and> p < 0 \<and>
      map_of (ecommerce_data 1 draws ! 0) ''Frete'' = Some (PyFloat f) \<and> f < 0"
    using ecommerce_low_fields by (intro exI [of _ ecommerce_low_draws]) simp
  show "\<exists>draws w v f. map_of (logistics_data 1 draws ! 0) ''Peso_Kg'' = Some (PyFloat w) \<and> w < 0 \<and>
      map_of (logistics_data 1 draws ! 0) ''Volume_M3'' = Some (PyFloat v) \<and> v < 0 \<and>
      map_of (logistics_data 1 draws ! 0) ''Valor_Frete'' = Some (PyFloat f) \<and> f < 0"
    using logistics_low_fields by (intro exI [of _ logistics_sample_draws]) simp
qed (simp_all add: ecommerce_data_nth logistics_data_nth ecommerce_row_normal_fields
    logistics_row_normal_fields)

theorem normal_fields_stored_witness:
  "(0 :: nat) < nat 1 \<and>
   map_of (ecommerce_data 1 ecommerce_low_draws ! 0) ''Preco_Unitario'' = Some (PyFloat (- 10)) \<and>
   map_of (ecommerce_data 1 ecommerce_low_draws ! 0) ''Frete'' = Some (PyFloat (- 1)) \<and>
   map_of (ecommerce_data 1 ecommerce_low_draws ! 0) ''Quantidade'' = Some (PyInt 1) \<and>
   map_of (logistics_data 1 logistics_sample_draws ! 0) ''Peso_Kg'' = Some (PyFloat (- 1)) \<and>
   map_of (logistics_data 1 logistics_sample_draws ! 0) ''Volume_M3'' = Some (PyFloat (- 0.01)) \<and>
   map_of (logistics_data 1 logistics_sample_draws ! 0) ''Valor_Frete'' = Some (PyFloat (- 5))"
  using normal_fields_stored [of 0 1 ecommerce_low_draws logistics_sample_draws]
  by (simp add: ecommerce_low_draws_def logistics_sample_draws_def logistics_sample_def
      eval_round)

theorem quantidade_clamped_counterexample:
  "np_normal 2 1.5 (ec_quantity_z (ecommerce_low_draws 0)) = - 1 \<and>
   map_of (ecommerce_data 1 ecommerce_low_draws ! 0) ''Quantidade'' = Some (PyInt 1)"
  by (simp add: ecommerce_low_fields ecommerce_low_draws_def np_normal_def)

subsection \<open>Log-normal fields\<close>








lemma controllership_data_nth:
  "i < nat num_rows \<Longrightarrow> controllership_data num_rows draws ! i = controllership_row i (draws i)"
  by (simp add: controllership_data_def length_range nth_range)



lemma hr_data_length: "length (hr_data num_rows draws) = nat num_rows"
  by (simp add: hr_data_def length_range)

lemma hr_data_nth:
  "i < nat num_rows \<Longrightarrow> hr_data num_rows draws ! i = hr_row i (draws i)"
  by (simp add: hr_data_def length_range nth_range)



lemma inventory_data_nth:
  "i < nat num_rows \<Longrightarrow> inventory_data num_rows draws ! i = inventory_row i (draws i)"
  by (simp add: inventory_data_def length_range nth_range)



lemma customers_data_length: "length (customers_data num_rows draws) = nat num_rows"
  by (simp add: customers_data_def length_range)

lemma customers_data_nth:
  "i < nat num_rows \<Longrightarrow> customers_data num_rows draws ! i = customers_row i (draws i)"
  by (simp add: customers_data_def length_range nth_range)



lemma suppliers_data_length: "length (suppliers_data num_rows draws) = nat num_rows"
  by (simp add: suppliers_data_def length_range)

lemma suppliers_data_nth:
  "i < nat num_rows \<Longrightarrow> suppliers_data num_rows draws ! i = suppliers_row i (draws i)"
  by (simp add: suppliers_data_def length_range nth_range)


subsection \<open>Rows of the generators that may raise\<close>

lemma collect_Inr_iff:
  "collect f js data = Inr rows \<longleftrightarrow> (\<exists>rs. rows = data @ rs \<and> map f js = map Inr rs)"
proof (induction js arbitrary: data)
  case Nil
  show ?case by auto
next
  case (Cons j js)
  show ?case
  proof (cases "f j")
    case (Inl e)
    then show ?thesis by (auto simp: Cons_eq_map_conv)
  next
    case (Inr r)
    have "(\<exists>rs'. rows = (data @ [r]) @ rs' \<and> map f js = map Inr rs') \<longleftrightarrow>
          (\<exists>rs. rows = data @ rs \<and> Inr r # map f js = map Inr rs)"
      by (auto simp: Cons_eq_map_conv)
    then show ?thesis using Inr Cons.IH [of "data @ [r]"] by simp
  qed
qed

lemma collect_rows:
  assumes "collect f js [] = Inr rows"
  shows "length rows = length js" and "k < length js \<Longrightarrow> f (js ! k) = Inr (rows ! k)"
proof -
  from assms have m: "map f js = map Inr rows" by (simp add: collect_Inr_iff)
  then show "length rows = length js" by (metis length_map)
  show "f (js ! k) = Inr (rows ! k)" if "k < length js"
  proof -
    have "k < length rows" using that m by (metis length_map)
    then have "map Inr rows ! k = (Inr (rows ! k) :: py_error + row)" by simp
    moreover have "map f js ! k = f (js ! k)" using that by simp
    ultimately show ?thesis using m by simp
  qed
qed

lemma collect_set:
  assumes "collect f js [] = Inr rows" and "r \<in> set rows"
  shows "\<exists>j \<in> set js. f j = Inr r"
proof -
  from assms(2) obtain k where k: "k < length rows" "rows ! k = r"
    by (auto simp: in_set_conv_nth)
  then have "k < length js" using collect_rows(1) [OF assms(1)] by simp
  then show ?thesis using collect_rows(2) [OF assms(1), of k] k by auto
qed

lemma collect_total:
  "(\<And>j. j \<in> set js \<Longrightarrow> \<exists>r. f j = Inr r) \<Longrightarrow> \<exists>rows. collect f js data = Inr rows"
proof (induction js arbitrary: data)
  case Nil
  show ?case by simp
next
  case (Cons j js)
  from Cons.prems [of j] obtain r where "f j = Inr r" by auto
  then show ?case using Cons.IH [of "data @ [r]"] Cons.prems by simp
qed

lemma guarded_ratio:
  "bind_err (if (0 :: int) < k then bind_err (truediv a (of_int k)) (\<lambda>q. Inr (h q)) else Inr v) f =
     f (if 0 < k then h (a / of_int k) else v)"
  by (simp add: bind_err_def truediv_def)

lemma bind_truediv:
  "bind_err (truediv a b) f = (if b = 0 then Inl ZeroDivisionError else f (a / b))"
  by (simp add: bind_err_def truediv_def)

lemma marketing_row_raises:
  "marketing_row i d = Inl e \<Longrightarrow> py_round (np_lognormal 7 1.2 (mk_investment_z d)) 2 = 0"
  unfolding marketing_row_def Let_def guarded_ratio
  unfolding bind_truediv
  by (simp split: if_splits)

lemma marketing_row_zero_investment:
  "py_round (np_lognormal 7 1.2 (mk_investment_z d)) 2 = 0 \<Longrightarrow>
     marketing_row i d = Inl ZeroDivisionError"
  unfolding marketing_row_def Let_def guarded_ratio
  unfolding bind_truediv
  by simp

lemma marketing_row_fields:
  assumes "marketing_row i d = Inr r"
  shows "map_of r ''Investimento'' = Some (PyFloat (py_round (np_lognormal 7 1.2 (mk_investment_z d)) 2))"
    and "map_of r ''Impressoes'' = Some (PyInt (py_int (np_lognormal 12 1.5 (mk_impressions_z d))))"
    and "\<exists>imp clk cnv inv.
       map_of r ''Impressoes'' = Some (PyInt imp) \<and> map_of r ''Cliques'' = Some (PyInt clk) \<and>
       map_of r ''Conversoes'' = Some (PyInt cnv) \<and> map_of r ''Investimento'' = Some (PyFloat inv) \<and>
       map_of r ''CTR'' = Some (round_val (if 0 < imp then PyFloat (of_int clk / of_int imp * 100)
                                else PyInt 0) 2) \<and>
       map_of r ''CPC'' = Some (round_val (if 0 < clk then PyFloat (inv / of_int clk) else PyInt 0) 2) \<and>
       map_of r ''CPA'' = Some (round_val (if 0 < cnv then PyFloat (inv / of_int cnv) else PyInt 0) 2)"
    and "map_of r ''ID_Campanha'' = Some (PyStr (''CAMP'' @ format_0d 5 (int i + 1)))"
proof -
  from assms have ne: "py_round (np_lognormal 7 1.2 (mk_investment_z d)) 2 \<noteq> 0"
    using marketing_row_zero_investment [of d i] by auto
  note r = assms [unfolded marketing_row_def Let_def guarded_ratio, unfolded bind_truediv, simplified ne if_False,
      simplified sum.inject, symmetric]
  show "map_of r ''Investimento'' = Some (PyFloat (py_round (np_lognormal 7 1.2 (mk_investment_z d)) 2))"
    by (subst r) simp
  show "map_of r ''Impressoes'' = Some (PyInt (py_int (np_lognormal 12 1.5 (mk_impressions_z d))))"
    by (subst r) simp
  show "map_of r ''ID_Campanha'' = Some (PyStr (''CAMP'' @ format_0d 5 (int i + 1)))"
    by (subst r) simp
  show "\<exists>imp clk cnv inv.
       map_of r ''Impressoes'' = Some (PyInt imp) \<and> map_of r ''Cliques'' = Some (PyInt clk) \<and>
       map_of r ''Conversoes'' = Some (PyInt cnv) \<and> map_of r ''Investimento'' = Some (PyFloat inv) \<and>
       map_of r ''CTR'' = Some (round_val (if 0 < imp then PyFloat (of_int clk / of_int imp * 100)
                                else PyInt 0) 2) \<and>
       map_of r ''CPC'' = Some (round_val (if 0 < clk then PyFloat (inv / of_int clk) else PyInt 0) 2) \<and>
       map_of r ''CPA'' = Some (round_val (if 0 < cnv then PyFloat (inv / of_int cnv) else PyInt 0) 2)"
    by (subst r)+ (simp cong: if_cong)
qed

lemma production_row_ok:
  assumes "production_draws_ok d"
  shows "\<exists>r. production_row i d = Inr r"
  using assms unfolding production_row_def Let_def bind_truediv
  by (simp add: production_draws_ok_def)

lemma production_row_fields:
  assumes "production_row i d = Inr r"
  shows "map_of r ''Custo_Materia_Prima'' = Some (PyFloat (py_round (np_lognormal 8 1 (pr_materia_z d)) 2))"
    and "map_of r ''Custo_Mao_Obra'' = Some (PyFloat (py_round (np_lognormal 7 0.8 (pr_mao_obra_z d)) 2))"
    and "map_of r ''Quantidade_Planejada'' = Some (PyInt (pr_planned_qty d))"
    and "map_of r ''Quantidade_Produzida'' =
           Some (PyInt (py_int (of_int (pr_planned_qty d) * pr_produced_beta d)))"
    and "map_of r ''Eficiencia'' =
           Some (PyFloat (py_round (of_int (py_int (of_int (pr_planned_qty d) * pr_produced_beta d))
             / of_int (pr_planned_qty d) * 100) 2))"
    and "map_of r ''ID_Ordem'' = Some (PyStr (''ORD'' @ format_0d 6 (int i + 1)))"
proof -
  from assms have ne: "(of_int (pr_planned_qty d) :: real) \<noteq> 0"
    unfolding production_row_def Let_def bind_truediv by (auto split: if_splits)
  note r = assms [unfolded production_row_def Let_def bind_truediv, simplified ne if_False,
      simplified sum.inject, symmetric]
  show "map_of r ''Custo_Materia_Prima'' = Some (PyFloat (py_round (np_lognormal 8 1 (pr_materia_z d)) 2))"
    by (subst r) simp
  show "map_of r ''Custo_Mao_Obra'' = Some (PyFloat (py_round (np_lognormal 7 0.8 (pr_mao_obra_z d)) 2))"
    by (subst r) simp
  show "map_of r ''Quantidade_Planejada'' = Some (PyInt (pr_planned_qty d))"
    by (subst r) simp
  show "map_of r ''Quantidade_Produzida'' =
           Some (PyInt (py_int (of_int (pr_planned_qty d) * pr_produced_beta d)))"
    by (subst r) simp
  show "map_of r ''Eficiencia'' =
           Some (PyFloat (py_round (of_int (py_int (of_int (pr_planned_qty d) * pr_produced_beta d))
             / of_int (pr_planned_qty d) * 100) 2))"
    by (subst r) simp
  show "map_of r ''ID_Ordem'' = Some (PyStr (''ORD'' @ format_0d 6 (int i + 1)))"
    by (subst r) simp
qed

lemma marketing_data_rows:
  assumes "marketing_data num_rows draws = Inr rows"
  shows "length rows = nat num_rows"
    and "k < nat num_rows \<Longrightarrow> marketing_row k (draws k) = Inr (rows ! k)"
    and "r \<in> set rows \<Longrightarrow> \<exists>j. j < nat num_rows \<and> marketing_row j (draws j) = Inr r"
proof -
  note c = assms [unfolded marketing_data_def]
  show "length rows = nat num_rows" using collect_rows(1) [OF c] by (simp add: length_range)
  show "marketing_row k (draws k) = Inr (rows ! k)" if "k < nat num_rows"
    using collect_rows(2) [OF c, of k] that by (simp add: length_range nth_range)
  show "\<exists>j. j < nat num_rows \<and> marketing_row j (draws j) = Inr r" if "r \<in> set rows"
    using collect_set [OF c that] by (auto simp: set_range)
qed

lemma production_data_rows:
  assumes "production_data num_rows draws = Inr rows"
  shows "length rows = nat num_rows"
    and "k < nat num_rows \<Longrightarrow> production_row k (draws k) = Inr (rows ! k)"
    and "r \<in> set rows \<Longrightarrow> \<exists>j. j < nat num_rows \<and> production_row j (draws j) = Inr r"
proof -
  note c = assms [unfolded production_data_def]
  show "length rows = nat num_rows" using collect_rows(1) [OF c] by (simp add: length_range)
  show "production_row k (draws k) = Inr (rows ! k)" if "k < nat num_rows"
    using collect_rows(2) [OF c, of k] that by (simp add: length_range nth_range)
  show "\<exists>j. j < nat num_rows \<and> production_row j (draws j) = Inr r" if "r \<in> set rows"
    using collect_set [OF c that] by (auto simp: set_range)
qed

lemma production_data_ok:
  assumes "\<And>i. i < nat num_rows \<Longrightarrow> production_draws_ok (draws i)"
  shows "\<exists>rows. production_data num_rows draws = Inr rows"
  unfolding production_data_def
  by (rule collect_total) (use assms in \<open>auto simp: set_range intro: production_row_ok\<close>)

lemma py_round_below_half_cent: "0 \<le> x \<Longrightarrow> x \<le> 1 / 200 \<Longrightarrow> py_round x 2 = 0"
  using py_round_pos_iff [of x] py_round_nonneg [of x 2] by simp

lemma py_round_1: "py_round 1 2 = 1"
  by (simp add: py_round_def rint_def Let_def)

lemma py_int_exp_neg: "x < 0 \<Longrightarrow> py_int (exp x) = 0"
proof -
  assume "x < 0"
  then have "exp x < 1" by simp
  then have "\<lfloor>exp x\<rfloor> = 0" by (simp add: floor_eq_iff)
  then show ?thesis by (simp add: py_int_def)
qed

lemma lognormal_unit: "mu + sigma * z = 0 \<Longrightarrow> py_round (np_lognormal mu sigma z) 2 = 1"
  by (simp add: np_lognormal_def np_normal_def py_round_1)

lemma lognormal_int_zero: "mu + sigma * z < 0 \<Longrightarrow> py_int (np_lognormal mu sigma z) = 0"
  by (simp add: np_lognormal_def np_normal_def py_int_exp_neg)

lemma lognormal_tiny: "mu + sigma * z \<le> - 7 \<Longrightarrow> py_round (np_lognormal mu sigma z) 2 = 0"
proof -
  assume "mu + sigma * z \<le> - 7"
  then have "exp (mu + sigma * z) < 1 / 200" by (rule exp_small)
  then show ?thesis
    unfolding np_lognormal_def np_normal_def by (intro py_round_below_half_cent) simp_all
qed





lemma marketing_sample_row:
  "\<exists>r. marketing_row i marketing_sample = Inr r \<and>
     map_of r ''Investimento'' = Some (PyFloat 1) \<and> map_of r ''Impressoes'' = Some (PyInt 0) \<and>
     map_of r ''Cliques'' = Some (PyInt 0) \<and> map_of r ''Conversoes'' = Some (PyInt 0) \<and>
     map_of r ''CTR'' = Some (PyInt 0) \<and> map_of r ''CPC'' = Some (PyInt 0) \<and>
     map_of r ''CPA'' = Some (PyInt 0) \<and> map_of r ''ROI'' = Some (PyFloat (- 100))"
proof -
  have roi: "py_round (- 100) 2 = - 100"
    by (simp add: py_round_def rint_def Let_def)
  have z: "py_int 0 = 0"
    by (simp add: py_int_def)
  show ?thesis
    unfolding marketing_row_def Let_def guarded_ratio
    unfolding bind_truediv
    by (simp add: marketing_sample_def lognormal_unit lognormal_int_zero roi z)
qed

lemma marketing_sample_data:
  "\<exists>r. marketing_data 1 marketing_sample_draws = Inr [r] \<and>
     map_of r ''Investimento'' = Some (PyFloat 1) \<and> map_of r ''Impressoes'' = Some (PyInt 0) \<and>
     map_of r ''Cliques'' = Some (PyInt 0) \<and> map_of r ''Conversoes'' = Some (PyInt 0) \<and>
     map_of r ''CTR'' = Some (PyInt 0) \<and> map_of r ''CPC'' = Some (PyInt 0) \<and>
     map_of r ''CPA'' = Some (PyInt 0) \<and> map_of r ''ROI'' = Some (PyFloat (- 100))"
  using marketing_sample_row [of 0]
  by (auto simp: marketing_data_def range_1 marketing_sample_draws_def)

lemma production_sample_row:
  "\<exists>r. production_row i production_sample = Inr r \<and>
     map_of r ''Quantidade_Planejada'' = Some (PyInt 1000) \<and>
     map_of r ''Quantidade_Produzida'' = Some (PyInt 800) \<and>
     map_of r ''Eficiencia'' = Some (PyFloat 80) \<and>
     map_of r ''Custo_Materia_Prima'' = Some (PyFloat 1) \<and>
     map_of r ''Custo_Mao_Obra'' = Some (PyFloat 1)"
proof -
  have e: "py_round 80 2 = 80"
    by (simp add: py_round_def rint_def Let_def)
  have q: "py_int 800 = 800"
    by (simp add: py_int_def)
  show ?thesis
    unfolding production_row_def Let_def bind_truediv
    by (simp add: production_sample_def lognormal_unit e q)
qed

lemma production_sample_data:
  "\<exists>r. production_data 1 production_sample_draws = Inr [r] \<and>
     map_of r ''Quantidade_Planejada'' = Some (PyInt 1000) \<and>
     map_of r ''Quantidade_Produzida'' = Some (PyInt 800) \<and>
     map_of r ''Eficiencia'' = Some (PyFloat 80) \<and>
     map_of r ''Custo_Materia_Prima'' = Some (PyFloat 1) \<and>
     map_of r ''Custo_Mao_Obra'' = Some (PyFloat 1)"
  using production_sample_row [of 0]
  by (auto simp: production_data_def range_1 production_sample_draws_def)




subsection \<open>Sequential identifiers\<close>

lemma of_char_digit: "d < 10 \<Longrightarrow> of_char (digit_char d) = (48 + d :: nat)"
  by (simp add: digit_char_def)

lemma digits_value_snoc: "digits_value (s @ [c]) = 10 * digits_value s + (of_char c - 48)"
  by (simp add: digits_value_def)

lemma digits_value_str_nat: "digits_value (str_nat n) = n"
proof (induction n rule: str_nat.induct)
  case (1 n)
  show ?case
  proof (cases "n < 10")
    case True
    then show ?thesis
      by (subst str_nat.simps) (simp add: digits_value_def of_char_digit)
  next
    case False
    then have "digits_value (str_nat (n div 10)) = n div 10" using "1.IH" by simp
    then show ?thesis using False
      by (subst str_nat.simps) (simp add: digits_value_snoc of_char_digit)
  qed
qed

lemma digits_value_zeros: "digits_value (replicate k CHR ''0'' @ s) = digits_value s"
proof -
  have "foldl (\<lambda>a c. 10 * a + (of_char c - 48)) (0 :: nat) (replicate k CHR ''0'') = 0"
    by (induction k) simp_all
  then show ?thesis by (simp add: digits_value_def)
qed

lemma digits_value_format: "0 \<le> k \<Longrightarrow> digits_value (format_0d w k) = nat k"
  by (simp add: format_0d_def digits_value_zeros digits_value_str_nat)

lemma format_0d_inj: "format_0d w (int i + 1) = format_0d w (int j + 1) \<Longrightarrow> i = j"
proof -
  assume "format_0d w (int i + 1) = format_0d w (int j + 1)"
  then have "digits_value (format_0d w (int i + 1)) = digits_value (format_0d w (int j + 1))"
    by simp
  then show ?thesis by (simp add: digits_value_format)
qed

lemma length_str_nat: "n < 10 ^ w \<Longrightarrow> 0 < w \<Longrightarrow> length (str_nat n) \<le> w"
proof (induction n arbitrary: w rule: str_nat.induct)
  case (1 n)
  show ?case
  proof (cases "n < 10")
    case True
    then show ?thesis using "1.prems" by (subst str_nat.simps) simp
  next
    case False
    obtain v where w: "w = Suc v" using "1.prems"(2) by (cases w) auto
    have "n div 10 < 10 ^ v" using "1.prems"(1) w by (simp add: less_mult_imp_div_less mult.commute)
    moreover have "0 < v"
    proof (rule ccontr)
      assume "\<not> 0 < v"
      then show False using "1.prems"(1) w False by simp
    qed
    ultimately have "length (str_nat (n div 10)) \<le> v" using "1.IH" [of v] False by simp
    then show ?thesis using False w by (subst str_nat.simps) simp
  qed
qed

lemma str_nat_nonempty: "0 < length (str_nat n)"
  by (subst str_nat.simps) simp

lemma length_str_nat_wide: "10 ^ w \<le> n \<Longrightarrow> w < length (str_nat n)"
proof (induction n arbitrary: w rule: str_nat.induct)
  case (1 n)
  show ?case
  proof (cases w)
    case 0
    then show ?thesis using str_nat_nonempty [of n] by simp
  next
    case (Suc v)
    then have big: "10 * 10 ^ v \<le> n" using "1.prems" by simp
    have "(1 :: nat) \<le> 10 ^ v" by simp
    then have n10: "\<not> n < 10" using big by linarith
    have "10 ^ v \<le> n div 10" using big by (simp add: less_eq_div_iff_mult_less_eq mult.commute)
    then have "v < length (str_nat (n div 10))" using "1.IH" [of v] n10 by simp
    then show ?thesis using n10 Suc by (subst str_nat.simps) simp
  qed
qed

lemma format_0d_wide:
  "10 ^ w \<le> int i + 1 \<Longrightarrow> w < length (format_0d w (int i + 1))"
proof -
  assume b: "10 ^ w \<le> int i + 1"
  have "int (10 ^ w) \<le> int (Suc i)" using b by simp
  then have "10 ^ w \<le> Suc i" by (simp only: of_nat_le_iff)
  then have "w < length (str_nat (Suc i))" by (rule length_str_nat_wide)
  moreover have "nat (int i + 1) = Suc i" by simp
  ultimately show ?thesis by (simp add: format_0d_def)
qed

lemma format_0d_length:
  "0 < w \<Longrightarrow> int i + 1 < 10 ^ w \<Longrightarrow> length (format_0d w (int i + 1)) = w"
proof -
  assume w: "0 < w" and b: "int i + 1 < 10 ^ w"
  have "nat (int i + 1) = Suc i" by simp
  moreover have "Suc i < 10 ^ w"
  proof -
    have "int (Suc i) < int (10 ^ w)" using b by simp
    then show ?thesis by (simp only: of_nat_less_iff)
  qed
  ultimately have "length (str_nat (nat (int i + 1))) \<le> w" using length_str_nat [of "Suc i" w] w by simp
  then show ?thesis by (simp add: format_0d_def)
qed

lemma distinct_ids:
  "distinct (map (\<lambda>i. Some (PyStr (p @ format_0d w (int i + 1)))) js) \<longleftrightarrow> distinct js"
  by (auto simp: distinct_map inj_on_def dest: format_0d_inj)

lemma distinct_range: "distinct (range n)"
  by (simp add: range_def)

lemma row_ids:
  "map_of (ecommerce_row i ec) ''ID_Pedido'' = Some (PyStr (''PED'' @ format_0d 6 (int i + 1)))"
  "map_of (hr_row i hr) ''ID_Funcionario'' = Some (PyStr (''FUN'' @ format_0d 5 (int i + 1)))"
  "map_of (logistics_row i lg) ''ID_Entrega'' = Some (PyStr (''ENT'' @ format_0d 6 (int i + 1)))"
  "map_of (customers_row i cu) ''ID_Cliente'' = Some (PyStr (''CLI'' @ format_0d 6 (int i + 1)))"
  "map_of (suppliers_row i su) ''ID_Fornecedor'' = Some (PyStr (''FOR'' @ format_0d 5 (int i + 1)))"
  by (simp_all add: ecommerce_row_def hr_row_def logistics_row_def customers_row_def
      suppliers_row_def Let_def)

lemma collected_ids:
  assumes "collect f js [] = Inr rows"
    and "\<And>j r. f j = Inr r \<Longrightarrow> map_of r key = Some (PyStr (p @ format_0d w (int j + 1)))"
  shows "map (\<lambda>r. map_of r key) rows = map (\<lambda>j. Some (PyStr (p @ format_0d w (int j + 1)))) js"
proof (rule nth_equalityI)
  show "length (map (\<lambda>r. map_of r key) rows) =
        length (map (\<lambda>j. Some (PyStr (p @ format_0d w (int j + 1)))) js)"
    using collect_rows(1) [OF assms(1)] by simp
next
  fix k assume "k < length (map (\<lambda>r. map_of r key) rows)"
  then have k: "k < length js" "k < length rows" using collect_rows(1) [OF assms(1)] by simp_all
  from collect_rows(2) [OF assms(1) k(1)] assms(2)
  have "map_of (rows ! k) key = Some (PyStr (p @ format_0d w (int (js ! k) + 1)))" by simp
  then show "map (\<lambda>r. map_of r key) rows ! k =
             map (\<lambda>j. Some (PyStr (p @ format_0d w (int j + 1)))) js ! k"
    using k by simp
qed

text \<open>
  Claim C8, amended. In every generator with a sequential identifier (e-commerce, HR,
  logistics, customers, suppliers, marketing, production) and for every row count, the
  identifier of row \<open>i\<close>, counted from 0, is the prefix followed by \<open>i + 1\<close> in the
  format \<open>0wd\<close>: its decimal digits, padded with zeros to at least the width \<open>w\<close> of
  the domain. The number has exactly \<open>w\<close> characters while \<open>i + 1 < 10 ^ w\<close> and more
  than \<open>w\<close> from \<open>i + 1 = 10 ^ w\<close> on, so the width is not fixed for every row count.
  The identifiers of one run are pairwise distinct for every row count.
\<close>

theorem sequential_identifiers:
  "(i < nat num_rows \<longrightarrow>
      map_of (ecommerce_data num_rows ec ! i) ''ID_Pedido'' =
        Some (PyStr (''PED'' @ format_0d 6 (int i + 1))) \<and>
      map_of (hr_data num_rows hr ! i) ''ID_Funcionario'' =
        Some (PyStr (''FUN'' @ format_0d 5 (int i + 1))) \<and>
      map_of (logistics_data num_rows lg ! i) ''ID_Entrega'' =
        Some (PyStr (''ENT'' @ format_0d 6 (int i + 1))) \<and>
      map_of (customers_data num_rows cu ! i) ''ID_Cliente'' =
        Some (PyStr (''CLI'' @ format_0d 6 (int i + 1))) \<and>
      map_of (suppliers_data num_rows su ! i) ''ID_Fornecedor'' =
        Some (PyStr (''FOR'' @ format_0d 5 (int i + 1)))) \<and>
   (i < nat num_rows \<and> marketing_data num_rows mk = Inr mrows \<longrightarrow>
      map_of (mrows ! i) ''ID_Campanha'' = Some (PyStr (''CAMP'' @ format_0d 5 (int i + 1)))) \<and>
   (i < nat num_rows \<and> production_data num_rows pr = Inr prows \<longrightarrow>
      map_of (prows ! i) ''ID_Ordem'' = Some (PyStr (''ORD'' @ format_0d 6 (int i + 1)))) \<and>
   distinct (map (\<lambda>r. map_of r ''ID_Pedido'') (ecommerce_data num_rows ec)) \<and>
   distinct (map (\<lambda>r. map_of r ''ID_Funcionario'') (hr_data num_rows hr)) \<and>
   distinct (map (\<lambda>r. map_of r ''ID_Entrega'') (logistics_data num_rows lg)) \<and>
   distinct (map (\<lambda>r. map_of r ''ID_Cliente'') (customers_data num_rows cu)) \<and>
   distinct (map (\<lambda>r. map_of r ''ID_Fornecedor'') (suppliers_data num_rows su)) \<and>
   (marketing_data num_rows mk = Inr mrows \<longrightarrow> distinct (map (\<lambda>r. map_of r ''ID_Campanha'') mrows)) \<and>
   (production_data num_rows pr = Inr prows \<longrightarrow> distinct (map (\<lambda>r. map_of r ''ID_Ordem'') prows)) \<and>
   (0 < w \<and> int i + 1 < 10 ^ w \<longrightarrow> length (format_0d w (int i + 1)) = w) \<and>
   (10 ^ w \<le> int i + 1 \<longrightarrow> w < length (format_0d w (int i + 1)))"
proof (intro conjI impI)
  show "w < length (format_0d w (int i + 1))" if "10 ^ w \<le> int i + 1"
    using that by (rule format_0d_wide)
  show "map_of (mrows ! i) ''ID_Campanha'' = Some (PyStr (''CAMP'' @ format_0d 5 (int i + 1)))"
    if "i < nat num_rows \<and> marketing_data num_rows mk = Inr mrows"
    using that marketing_data_rows(2) [of num_rows mk mrows i] marketing_row_fields(4) by blast
  show "map_of (prows ! i) ''ID_Ordem'' = Some (PyStr (''ORD'' @ format_0d 6 (int i + 1)))"
    if "i < nat num_rows \<and> production_data num_rows pr = Inr prows"
    using that production_data_rows(2) [of num_rows pr prows i] production_row_fields(6) by blast
  show "distinct (map (\<lambda>r. map_of r ''ID_Campanha'') mrows)"
    if "marketing_data num_rows mk = Inr mrows"
  proof -
    have "map (\<lambda>r. map_of r ''ID_Campanha'') mrows =
          map (\<lambda>j. Some (PyStr (''CAMP'' @ format_0d 5 (int j + 1)))) (range num_rows)"
      using that [unfolded marketing_data_def] by (rule collected_ids) (rule marketing_row_fields(4))
    then show ?thesis by (simp only: distinct_ids distinct_range)
  qed
  show "distinct (map (\<lambda>r. map_of r ''ID_Ordem'') prows)"
    if "production_data num_rows pr = Inr prows"
  proof -
    have "map (\<lambda>r. map_of r ''ID_Ordem'') prows =
          map (\<lambda>j. Some (PyStr (''ORD'' @ format_0d 6 (int j + 1)))) (range num_rows)"
      using that [unfolded production_data_def] by (rule collected_ids) (rule production_row_fields(6))
    then show ?thesis by (simp only: distinct_ids distinct_range)
  qed
  show "length (format_0d w (int i + 1)) = w" if "0 < w \<and> int i + 1 < 10 ^ w"
    using that by (simp add: format_0d_length)
  show "distinct (map (\<lambda>r. map_of r ''ID_Pedido'') (ecommerce_data num_rows ec))"
    by (simp only: ecommerce_data_def map_map comp_def row_ids distinct_ids distinct_range)
  show "distinct (map (\<lambda>r. map_of r ''ID_Funcionario'') (hr_data num_rows hr))"
    by (simp only: hr_data_def map_map comp_def row_ids distinct_ids distinct_range)
  show "distinct (map (\<lambda>r. map_of r ''ID_Entrega'') (logistics_data num_rows lg))"
    by (simp only: logistics_data_def map_map comp_def row_ids distinct_ids distinct_range)
  show "distinct (map (\<lambda>r. map_of r ''ID_Cliente'') (customers_data num_rows cu))"
    by (simp only: customers_data_def map_map comp_def row_ids distinct_ids distinct_range)
  show "distinct (map (\<lambda>r. map_of r ''ID_Fornecedor'') (suppliers_data num_rows su))"
    by (simp only: suppliers_data_def map_map comp_def row_ids distinct_ids distinct_range)
qed (simp_all add: ecommerce_data_nth hr_data_nth logistics_data_nth customers_data_nth
    suppliers_data_nth row_ids)

lemma marketing_sample_total: "\<exists>rows. marketing_data num_rows marketing_sample_draws = Inr rows"
  unfolding marketing_data_def
  by (rule collect_total) (use marketing_sample_row in \<open>auto simp: marketing_sample_draws_def\<close>)

lemma production_sample_ok: "production_draws_ok (production_sample_draws i)"
  by (simp add: production_draws_ok_def production_sample_draws_def production_sample_def)

lemma production_sample_total: "\<exists>rows. production_data num_rows production_sample_draws = Inr rows"
  by (rule production_data_ok) (rule production_sample_ok)

lemma format_0d_2: "format_0d 6 2 = ''000002''" "format_0d 5 2 = ''00002''"
  by code_simp+

theorem sequential_identifiers_witness:
  "(1 :: nat) < nat 2 \<and>
   map_of (ecommerce_data 2 ecommerce_sample_draws ! 1) ''ID_Pedido'' = Some (PyStr ''PED000002'') \<and>
   map_of (hr_data 2 hr_sample_draws ! 1) ''ID_Funcionario'' = Some (PyStr ''FUN00002'') \<and>
   map_of (logistics_data 2 logistics_sample_draws ! 1) ''ID_Entrega'' = Some (PyStr ''ENT000002'') \<and>
   map_of (customers_data 2 customers_sample_draws ! 1) ''ID_Cliente'' = Some (PyStr ''CLI000002'') \<and>
   map_of (suppliers_data 2 suppliers_sample_draws ! 1) ''ID_Fornecedor'' = Some (PyStr ''FOR00002'') \<and>
   (\<exists>rows. marketing_data 2 marketing_sample_draws = Inr rows \<and>
      map_of (rows ! 1) ''ID_Campanha'' = Some (PyStr ''CAMP00002'') \<and>
      distinct (map (\<lambda>r. map_of r ''ID_Campanha'') rows)) \<and>
   (\<exists>rows. production_data 2 production_sample_draws = Inr rows \<and>
      map_of (rows ! 1) ''ID_Ordem'' = Some (PyStr ''ORD000002'') \<and>
      distinct (map (\<lambda>r. map_of r ''ID_Ordem'') rows)) \<and>
   length (format_0d 6 (int 1 + 1)) = 6"
proof -
  obtain mrows where m: "marketing_data 2 marketing_sample_draws = Inr mrows"
    using marketing_sample_total by blast
  obtain prows where p: "production_data 2 production_sample_draws = Inr prows"
    using production_sample_total by blast
  note t = sequential_identifiers [where i = 1 and num_rows = 2 and w = 6
      and ec = ecommerce_sample_draws and hr = hr_sample_draws and lg = logistics_sample_draws
      and cu = customers_sample_draws and su = suppliers_sample_draws
      and mk = marketing_sample_draws and pr = production_sample_draws
      and mrows = mrows and prows = prows]
  have "map_of (mrows ! 1) ''ID_Campanha'' = Some (PyStr ''CAMP00002'')"
    "distinct (map (\<lambda>r. map_of r ''ID_Campanha'') mrows)"
    "map_of (prows ! 1) ''ID_Ordem'' = Some (PyStr ''ORD000002'')"
    "distinct (map (\<lambda>r. map_of r ''ID_Ordem'') prows)"
    using t m p by (simp_all add: format_0d_2)
  then show ?thesis using t m p by (simp add: format_0d_2)
qed

lemma digit_chars:
  "digit_char 0 = CHR ''0''" "digit_char (Suc 0) = CHR ''1''"
  by code_simp+

lemma str_nat_100000: "str_nat 100000 = ''100000''"
proof -
  have "str_nat 1 = ''1''" by (subst str_nat.simps) (simp add: digit_chars)
  then have "str_nat 10 = ''10''" by (subst str_nat.simps) (simp add: digit_chars)
  then have "str_nat 100 = ''100''" by (subst str_nat.simps) (simp add: digit_chars)
  then have "str_nat 1000 = ''1000''" by (subst str_nat.simps) (simp add: digit_chars)
  then have "str_nat 10000 = ''10000''" by (subst str_nat.simps) (simp add: digit_chars)
  then show ?thesis by (subst str_nat.simps) (simp add: digit_chars)
qed

lemma format_0d_100000: "format_0d 5 100000 = ''100000''"
  by (simp add: format_0d_def str_nat_100000)

theorem identifier_wider_counterexample:
  "map_of (hr_data 100000 hr_sample_draws ! 99999) ''ID_Funcionario'' = Some (PyStr ''FUN100000'') \<and>
   length (format_0d 5 (int 99999 + 1)) = 6"
  by (simp add: hr_data_nth row_ids format_0d_100000)

subsection \<open>Production within the plan\<close>

lemma production_row_bounds:
  assumes ok: "production_draws_ok d" and r: "production_row i d = Inr r"
  shows "\<exists>p q e. map_of r ''Quantidade_Planejada'' = Some (PyInt p) \<and>
           map_of r ''Quantidade_Produzida'' = Some (PyInt q) \<and> 0 \<le> q \<and> q \<le> p \<and>
           map_of r ''Eficiencia'' = Some (PyFloat e) \<and> 0 \<le> e \<and> e \<le> 100"
proof -
  let ?p = "pr_planned_qty d"
  let ?b = "pr_produced_beta d"
  let ?q = "py_int (of_int ?p * ?b)"
  let ?e = "py_round (of_int ?q / of_int ?p * 100) 2"
  from ok have p: "100 \<le> ?p" and b: "0 \<le> ?b" "?b \<le> 1"
    by (simp_all add: production_draws_ok_def)
  have pos: "0 \<le> of_int ?p * ?b" using p b by simp
  have le: "of_int ?p * ?b \<le> of_int ?p"
    using p b mult_left_le [of ?b "of_int ?p :: real"] by simp
  have q: "?q = \<lfloor>of_int ?p * ?b\<rfloor>" using pos by (simp add: py_int_def)
  have q0: "0 \<le> ?q" using pos q by simp
  have qp: "?q \<le> ?p" using le q by (simp add: floor_le_iff)
  have pp: "(0 :: real) < of_int ?p" using p by simp
  have e0: "0 \<le> of_int ?q / (of_int ?p :: real) * 100" using q0 pp by simp
  have "of_int ?q / (of_int ?p :: real) \<le> 1" using qp pp by simp
  then have "of_int ?q / (of_int ?p :: real) * 100 \<le> 1 * 100" by (rule mult_right_mono) simp
  then have e1: "of_int ?q / (of_int ?p :: real) * 100 \<le> of_int 100" by simp
  have "0 \<le> ?e" using e0 by (rule py_round_nonneg)
  moreover have "?e \<le> 100" using py_round_le [OF e1, of 2] by simp
  ultimately show ?thesis using production_row_fields(3,4,5) [OF r] q0 qp by simp
qed

text \<open>
  Claim C10. For draws in the ranges of their samplers (a planned quantity from
  \<open>randint(100, 10000)\<close>, a beta sample in the unit interval) the production generator
  returns its rows, and in every row \<open>Quantidade_Produzida\<close> is at most
  \<open>Quantidade_Planejada\<close> and \<open>Eficiencia\<close> lies between 0 and 100.
\<close>

theorem production_within_plan:
  assumes "\<forall>i<nat num_rows. production_draws_ok (draws i)"
  shows "\<exists>rows. production_data num_rows draws = Inr rows \<and> length rows = nat num_rows \<and>
           (\<forall>r\<in>set rows. \<exists>p q e.
               map_of r ''Quantidade_Planejada'' = Some (PyInt p) \<and>
               map_of r ''Quantidade_Produzida'' = Some (PyInt q) \<and> 0 \<le> q \<and> q \<le> p \<and>
               map_of r ''Eficiencia'' = Some (PyFloat e) \<and> 0 \<le> e \<and> e \<le> 100)"
proof -
  from assms production_data_ok [of num_rows draws]
  obtain rows where rows: "production_data num_rows draws = Inr rows" by blast
  have "\<exists>p q e. map_of r ''Quantidade_Planejada'' = Some (PyInt p) \<and>
           map_of r ''Quantidade_Produzida'' = Some (PyInt q) \<and> 0 \<le> q \<and> q \<le> p \<and>
           map_of r ''Eficiencia'' = Some (PyFloat e) \<and> 0 \<le> e \<and> e \<le> 100"
    if "r \<in> set rows" for r
  proof -
    from production_data_rows(3) [OF rows that]
    obtain j where j: "j < nat num_rows" "production_row j (draws j) = Inr r" by blast
    then show ?thesis using assms production_row_bounds [of "draws j" j r] by blast
  qed
  then show ?thesis using rows production_data_rows(1) [OF rows] by blast
qed

theorem production_within_plan_witness:
  "production_draws_ok (production_sample_draws 0) \<and>
   (\<exists>r. production_data 1 production_sample_draws = Inr [r] \<and>
      map_of r ''Quantidade_Planejada'' = Some (PyInt 1000) \<and>
      map_of r ''Quantidade_Produzida'' = Some (PyInt 800) \<and>
      map_of r ''Eficiencia'' = Some (PyFloat 80))"
proof -
  have "\<forall>i<nat 1. production_draws_ok (production_sample_draws i)"
    by (simp add: production_sample_ok)
  from production_within_plan [OF this] production_sample_data
  show ?thesis by (auto simp: production_sample_ok)
qed

subsection \<open>Guarded ratios\<close>

text \<open>
  What the guards of the marketing generator give. \<open>CTR\<close>, \<open>CPC\<close> and \<open>CPA\<close> are
  computed behind the guard \<open>denominator > 0\<close>: in every stored row the field is 0 when
  its denominator (\<open>Impressoes\<close>, \<open>Cliques\<close>, \<open>Conversoes\<close>) is 0, and the rounded
  quotient when the denominator is positive; these three divisions never raise, since a
  row computation raises only when \<open>Investimento\<close> is 0. In production, \<open>Eficiencia\<close>
  has no guard: its denominator \<open>Quantidade_Planejada\<close> is drawn from 100 to 10000, so
  it is never 0 and the generator returns its rows.
\<close>

theorem guarded_ratios:
  "(marketing_data num_rows mk = Inr rows \<and> r \<in> set rows \<longrightarrow>
      (\<exists>imp clk cnv inv.
         map_of r ''Impressoes'' = Some (PyInt imp) \<and> map_of r ''Cliques'' = Some (PyInt clk) \<and>
         map_of r ''Conversoes'' = Some (PyInt cnv) \<and> map_of r ''Investimento'' = Some (PyFloat inv) \<and>
         (imp = 0 \<longrightarrow> map_of r ''CTR'' = Some (PyInt 0)) \<and>
         (clk = 0 \<longrightarrow> map_of r ''CPC'' = Some (PyInt 0)) \<and>
         (cnv = 0 \<longrightarrow> map_of r ''CPA'' = Some (PyInt 0)) \<and>
         (0 < imp \<longrightarrow> map_of r ''CTR'' = Some (PyFloat (py_round (of_int clk / of_int imp * 100) 2))) \<and>
         (0 < clk \<longrightarrow> map_of r ''CPC'' = Some (PyFloat (py_round (inv / of_int clk) 2))) \<and>
         (0 < cnv \<longrightarrow> map_of r ''CPA'' = Some (PyFloat (py_round (inv / of_int cnv) 2))))) \<and>
   (marketing_row i d = Inl e \<longrightarrow> py_round (np_lognormal 7 1.2 (mk_investment_z d)) 2 = 0) \<and>
   ((\<forall>i<nat num_rows. production_draws_ok (pr i)) \<longrightarrow>
      (\<exists>prows. production_data num_rows pr = Inr prows \<and> length prows = nat num_rows))"
proof (intro conjI impI)
  assume a: "marketing_data num_rows mk = Inr rows \<and> r \<in> set rows"
  then obtain j where "marketing_row j (mk j) = Inr r"
    using marketing_data_rows(3) [of num_rows mk rows r] by blast
  from marketing_row_fields(3) [OF this]
  show "\<exists>imp clk cnv inv.
         map_of r ''Impressoes'' = Some (PyInt imp) \<and> map_of r ''Cliques'' = Some (PyInt clk) \<and>
         map_of r ''Conversoes'' = Some (PyInt cnv) \<and> map_of r ''Investimento'' = Some (PyFloat inv) \<and>
         (imp = 0 \<longrightarrow> map_of r ''CTR'' = Some (PyInt 0)) \<and>
         (clk = 0 \<longrightarrow> map_of r ''CPC'' = Some (PyInt 0)) \<and>
         (cnv = 0 \<longrightarrow> map_of r ''CPA'' = Some (PyInt 0)) \<and>
         (0 < imp \<longrightarrow> map_of r ''CTR'' = Some (PyFloat (py_round (of_int clk / of_int imp * 100) 2))) \<and>
         (0 < clk \<longrightarrow> map_of r ''CPC'' = Some (PyFloat (py_round (inv / of_int clk) 2))) \<and>
         (0 < cnv \<longrightarrow> map_of r ''CPA'' = Some (PyFloat (py_round (inv / of_int cnv) 2)))"
    by (elim exE conjE, intro exI conjI) (assumption | simp)+
next
  assume "marketing_row i d = Inl e"
  then show "py_round (np_lognormal 7 1.2 (mk_investment_z d)) 2 = 0"
    by (rule marketing_row_raises)
next
  assume a: "\<forall>i<nat num_rows. production_draws_ok (pr i)"
  then obtain prows where "production_data num_rows pr = Inr prows"
    using production_data_ok [of num_rows pr] by blast
  then show "\<exists>prows. production_data num_rows pr = Inr prows \<and> length prows = nat num_rows"
    using production_data_rows(1) by blast
qed

theorem guarded_ratios_witness:
  "(\<exists>r. marketing_data 1 marketing_sample_draws = Inr [r] \<and> r \<in> set [r] \<and>
      map_of r ''Impressoes'' = Some (PyInt 0) \<and> map_of r ''Cliques'' = Some (PyInt 0) \<and>
      map_of r ''Conversoes'' = Some (PyInt 0) \<and> map_of r ''Investimento'' = Some (PyFloat 1) \<and>
      map_of r ''CTR'' = Some (PyInt 0) \<and> map_of r ''CPC'' = Some (PyInt 0) \<and>
      map_of r ''CPA'' = Some (PyInt 0)) \<and>
   marketing_row 0 marketing_tiny = Inl ZeroDivisionError \<and>
   py_round (np_lognormal 7 1.2 (mk_investment_z marketing_tiny)) 2 = 0 \<and>
   production_draws_ok (production_sample_draws 0) \<and>
   (\<exists>prows. production_data 1 production_sample_draws = Inr prows \<and> length prows = nat 1)"
proof -
  from marketing_sample_data obtain r where r: "marketing_data 1 marketing_sample_draws = Inr [r]"
    "map_of r ''Impressoes'' = Some (PyInt 0)" "map_of r ''Cliques'' = Some (PyInt 0)"
    "map_of r ''Conversoes'' = Some (PyInt 0)" "map_of r ''Investimento'' = Some (PyFloat 1)"
    by blast
  have z: "py_round (np_lognormal 7 1.2 (mk_investment_z marketing_tiny)) 2 = 0"
    by (simp add: marketing_tiny_def lognormal_tiny)
  then have raised: "marketing_row 0 marketing_tiny = Inl ZeroDivisionError"
    by (rule marketing_row_zero_investment)
  have ok: "\<forall>i<nat 1. production_draws_ok (production_sample_draws i)"
    by (simp add: production_sample_ok)
  note t = guarded_ratios [where num_rows = 1 and mk = marketing_sample_draws and rows = "[r]"
      and r = r and pr = production_sample_draws and i = 0 and d = marketing_tiny
      and e = ZeroDivisionError]
  from t r have "map_of r ''CTR'' = Some (PyInt 0)" "map_of r ''CPC'' = Some (PyInt 0)"
    "map_of r ''CPA'' = Some (PyInt 0)"
    by auto
  moreover from t ok
  have "\<exists>prows. production_data 1 production_sample_draws = Inr prows \<and> length prows = nat 1"
    by blast
  ultimately show ?thesis using r z raised production_sample_ok [of 0] by simp
qed

text \<open>
  Claim C4, as the code runs it. \<open>ROI\<close> divides by the investment with no guard,
  unlike \<open>CTR\<close>, \<open>CPC\<close> and \<open>CPA\<close> on the three lines before it. When the
  log-normal sample of the investment rounds to \<open>0.0\<close> (here the normal draw is -12,
  and \<open>exp (7 + 1.2 * (-12))\<close> is below half a cent), the division raises
  \<open>ZeroDivisionError\<close>: the generator stops and no row is stored, where the claim has
  \<open>ROI\<close> equal to 0.
\<close>

theorem roi_division_by_zero_investment:
  "py_round (np_lognormal 7 1.2 (mk_investment_z (marketing_tiny_draws 0))) 2 = 0 \<and>
   marketing_data 1 marketing_tiny_draws = Inl ZeroDivisionError"
proof -
  have z: "py_round (np_lognormal 7 1.2 (mk_investment_z (marketing_tiny_draws 0))) 2 = 0"
    by (simp add: marketing_tiny_draws_def marketing_tiny_def lognormal_tiny)
  then have "marketing_row 0 (marketing_tiny_draws 0) = Inl ZeroDivisionError"
    by (rule marketing_row_zero_investment)
  then show ?thesis using z by (simp add: marketing_data_def range_1)
qed

subsection \<open>The orchestrator\<close>

lemma run_calls_raised:
  "snd (run_calls cs out) = Some e \<longleftrightarrow>
     (\<exists>pre rest. cs = map Inr pre @ Inl e # rest)"
proof (induction cs arbitrary: out)
  case Nil
  show ?case by simp
next
  case (Cons c cs)
  show ?case
  proof (cases c)
    case (Inl e')
    have "(\<exists>pre rest. Inl e' # cs = map Inr pre @ Inl e # rest) \<longleftrightarrow> e' = e"
    proof
      assume "\<exists>pre rest. Inl e' # cs = map Inr pre @ Inl e # rest"
      then obtain pre rest where d: "Inl e' # cs = map Inr pre @ Inl e # rest" by blast
      then show "e' = e" by (cases pre) auto
    next
      assume "e' = e"
      then have "Inl e' # cs = map Inr [] @ Inl e # cs" by simp
      then show "\<exists>pre rest. Inl e' # cs = map Inr pre @ Inl e # rest" by blast
    qed
    then show ?thesis using Inl by auto
  next
    case (Inr line)
    have "(\<exists>pre rest. Inr line # cs = map Inr pre @ Inl e # rest) \<longleftrightarrow>
          (\<exists>pre rest. cs = map Inr pre @ Inl e # rest)"
    proof
      assume "\<exists>pre rest. Inr line # cs = map Inr pre @ Inl e # rest"
      then obtain pre rest where d: "Inr line # cs = map Inr pre @ Inl e # rest" by blast
      then show "\<exists>pre rest. cs = map Inr pre @ Inl e # rest" by (cases pre) auto
    next
      assume "\<exists>pre rest. cs = map Inr pre @ Inl e # rest"
      then obtain pre rest where "cs = map Inr pre @ Inl e # rest" by blast
      then have "Inr line # cs = map Inr (line # pre) @ Inl e # rest" by simp
      then show "\<exists>pre rest. Inr line # cs = map Inr pre @ Inl e # rest" by blast
    qed
    then show ?thesis using Inr Cons.IH [of "out @ [line]"] by simp
  qed
qed

text \<open>
  Inside \<open>main\<close> both handlers do what they are written for: an \<open>ImportError\<close> raised
  by a generator call is reported with the install hint, any other exception with its
  message, and the exit status is 1 in both cases.
\<close>

lemma main_handles_import_error:
  assumes "snd (run_calls [call_ecommerce_sales g, call_controllership g, call_hr g,
      call_logistics g, call_marketing g, call_production g, call_inventory g, call_customers g,
      call_suppliers g, call_cashflow g] out) = Some (ImportError e)" (is "snd (run_calls ?cs out) = _")
    and "out = [''Iniciando gera'' @ c_cedil @ a_tilde @ ''o de dados CSV...'', replicate 50 CHR ''='']"
  shows "exit_status (main g) = 1" and "uncaught (main g) = None"
    and "''pip install faker pandas numpy'' \<in> set (stdout (main g))"
    and "''Erro de importa'' @ c_cedil @ a_tilde @ ''o: '' @ e \<in> set (stdout (main g))"
proof -
  obtain out' where r: "run_calls ?cs out = (out', Some (ImportError e))"
    using assms(1) by (cases "run_calls ?cs out") auto
  have m: "main g = \<lparr>stdout = out' @ [''Erro de importa'' @ c_cedil @ a_tilde @ ''o: '' @ e,
                  ''Certifique-se de que todas as depend'' @ e_circ @ ''ncias est'' @ a_tilde @ ''o instaladas:'',
                  ''pip install faker pandas numpy''],
              uncaught = None, exit_status = 1\<rparr>"
    unfolding main_def Let_def assms(2) [symmetric] r by simp
  show "exit_status (main g) = 1" "uncaught (main g) = None"
    "''pip install faker pandas numpy'' \<in> set (stdout (main g))"
    "''Erro de importa'' @ c_cedil @ a_tilde @ ''o: '' @ e \<in> set (stdout (main g))"
    unfolding m by simp_all
qed

lemma main_handles_exception:
  assumes "snd (run_calls [call_ecommerce_sales g, call_controllership g, call_hr g,
      call_logistics g, call_marketing g, call_production g, call_inventory g, call_customers g,
      call_suppliers g, call_cashflow g] out) = Some (Exception e)" (is "snd (run_calls ?cs out) = _")
    and "out = [''Iniciando gera'' @ c_cedil @ a_tilde @ ''o de dados CSV...'', replicate 50 CHR ''='']"
  shows "exit_status (main g) = 1" and "uncaught (main g) = None"
    and "last (stdout (main g)) = ''Erro durante a gera'' @ c_cedil @ a_tilde @ ''o: '' @ e"
proof -
  obtain out' where r: "run_calls ?cs out = (out', Some (Exception e))"
    using assms(1) by (cases "run_calls ?cs out") auto
  have m: "main g = \<lparr>stdout = out' @ [''Erro durante a gera'' @ c_cedil @ a_tilde @ ''o: '' @ e],
              uncaught = None, exit_status = 1\<rparr>"
    unfolding main_def Let_def assms(2) [symmetric] r by simp
  show "exit_status (main g) = 1" "uncaught (main g) = None"
    "last (stdout (main g)) = ''Erro durante a gera'' @ c_cedil @ a_tilde @ ''o: '' @ e"
    unfolding m by simp_all
qed

lemma import_generators_missing:
  "import_generators installed \<noteq> None \<longleftrightarrow>
     \<not> (installed ''pandas'' \<and> installed ''numpy'' \<and> installed ''faker'')"
  by (simp add: import_generators_def)

text \<open>
  Claim C5, as the code runs it. With \<open>faker\<close> not installed, the import at the top of
  the script raises before \<open>main\<close> is called: the process prints nothing (so no install
  hint), the exception reaches the top level uncaught, and the exit status is 1.
\<close>

theorem missing_dependency_exits_without_hint:
  "generate_all without_faker g =
     \<lparr>stdout = [],
      uncaught = Some (ImportError (''No module named '' @ [CHR 0x27] @ ''faker'' @ [CHR 0x27])),
      exit_status = 1\<rparr>"
  by (simp add: generate_all_def import_generators_def without_faker_def)

text \<open>
  The same for every missing library of the three: no line is printed, whatever the
  generator calls would have pre.
\<close>

lemma missing_dependency_prints_nothing:
  "\<not> (installed ''pandas'' \<and> installed ''numpy'' \<and> installed ''faker'') \<Longrightarrow>
     stdout (generate_all installed g) = [] \<and> exit_status (generate_all installed g) = 1 \<and>
     uncaught (generate_all installed g) \<noteq> None"
  by (auto simp: generate_all_def import_generators_def)

end
